theory Spec2Isabelle
  imports Main "HOL-Library.Word"
begin

section \<open>Flow kinds (server/statistics/flowkind.go)\<close>

text \<open>
  \<^verbatim>\<open>type FlowKind uint32\<close> with \<^verbatim>\<open>WriteFlow FlowKind = iota\<close> and \<^verbatim>\<open>ReadFlow\<close> next:
  a 32-bit unsigned value, of which the first two are named.
\<close>

type_synonym FlowKind = "32 word"

definition WriteFlow :: FlowKind where
  "WriteFlow = 0"

definition ReadFlow :: FlowKind where
  "ReadFlow = 1"

text \<open>
  The region statistic kinds named by \<^verbatim>\<open>RegionStats\<close>. Their declaration is in another
  file of the package; only the six names used here are needed, as an enumeration.
\<close>

datatype RegionStatKind =
  RegionReadBytes | RegionReadKeys | RegionReadQuery
  | RegionWriteBytes | RegionWriteKeys | RegionWriteQuery

text \<open>\<^verbatim>\<open>func (k FlowKind) String() string\<close>: a switch with two cases and a fall-through return.\<close>

definition String :: "FlowKind \<Rightarrow> string" where
  "String k =
     (if k = WriteFlow then ''write''
      else if k = ReadFlow then ''read''
      else ''unimplemented'')"

text \<open>
  \<^verbatim>\<open>func (k FlowKind) RegionStats() []RegionStatKind\<close>: the \<^verbatim>\<open>nil\<close> slice of the last
  return is the empty list.
\<close>

definition RegionStats :: "FlowKind \<Rightarrow> RegionStatKind list" where
  "RegionStats k =
     (if k = WriteFlow then [RegionWriteBytes, RegionWriteKeys, RegionWriteQuery]
      else if k = ReadFlow then [RegionReadBytes, RegionReadKeys, RegionReadQuery]
      else [])"

section \<open>The checker controller (server/schedule/checker_controller.go)\<close>

subsection \<open>Regions, operators and the waiting list\<close>

text \<open>
  A region snapshot (\<^verbatim>\<open>*core.RegionInfo\<close>) is opaque to the controller but for its
  identifier, a \<^verbatim>\<open>uint64\<close> (\<^verbatim>\<open>RemoveWaitingRegion(id uint64)\<close>); everything else of
  it sits in the record's extension. Operators (\<^verbatim>\<open>*operator.Operator\<close>) and placement
  fits (\<^verbatim>\<open>*placement.RegionFit\<close>) are type parameters \<open>'op\<close> and \<open>'fit\<close>.
\<close>

record RegionInfo =
  region_id :: "64 word"

definition GetID :: "'m RegionInfo_scheme \<Rightarrow> 64 word" where
  "GetID region = region_id region"

text \<open>The two operator categories that \<^verbatim>\<open>CheckRegion\<close> names.\<close>

datatype OpKind = OpReplica | OpMerge

text \<open>
  Modelled from the spec: the waiting list's cache (package \<^verbatim>\<open>cache\<close>, not among the
  sources). The spec describes it as a fixed-capacity key set, values ignored, that
  evicts the oldest-inserted entry on overflow and offers Put and enumeration.
  The keys are kept oldest first.
\<close>

record cache =
  capacity :: nat
  keys :: "64 word list"

definition NewDefaultCache :: "nat \<Rightarrow> cache" where
  "NewDefaultCache sz = \<lparr>capacity = sz, keys = []\<rparr>"

definition Put :: "cache \<Rightarrow> 64 word \<Rightarrow> cache" where
  "Put ch k =
     (if k \<in> set (keys ch) then ch
      else ch\<lparr>keys := drop (Suc (length (keys ch)) - capacity ch) (keys ch @ [k])\<rparr>)"

definition Elems :: "cache \<Rightarrow> 64 word list" where
  "Elems ch = keys ch"

text \<open>\<^verbatim>\<open>const DefaultCacheSize = 1000\<close>\<close>

definition DefaultCacheSize :: nat where
  "DefaultCacheSize = 1000"

subsection \<open>The seven checkers and the controller\<close>

text \<open>
  Collaborators that the controller holds by reference (the cluster, the rule manager,
  the labeler, the context, the operator controller, the options) are references into
  the collaborators' state; a cache instance is an address in the store of caches.
\<close>

type_synonym ref = nat
type_synonym addr = nat

text \<open>
  A checker is what its constructor of package \<^verbatim>\<open>checker\<close> was given: the constructors'
  code is not among the sources, so each is a free constructor of its arguments, in the
  order of the call in \<^verbatim>\<open>NewCheckerController\<close>.
\<close>

datatype LearnerChecker = NewLearnerChecker ref
datatype ReplicaChecker = NewReplicaChecker ref (replica_waiting: addr)
datatype RuleChecker = NewRuleChecker ref ref (rule_waiting: addr)
datatype SplitChecker = NewSplitChecker ref ref ref
datatype MergeChecker = NewMergeChecker ref ref
datatype JointStateChecker = NewJointStateChecker ref
datatype PriorityChecker = NewPriorityChecker ref

datatype checker_kind = Learner | Replica | Rule | Split | Merge | JointState | Priority

text \<open>
  \<^verbatim>\<open>type CheckerController struct\<close>. The merge checker is the one field that
  \<^verbatim>\<open>CheckRegion\<close> tests against \<^verbatim>\<open>nil\<close>, so it is optional.
\<close>

record CheckerController =
  cluster :: ref
  opts :: ref
  opController :: ref
  learnerChecker :: LearnerChecker
  replicaChecker :: ReplicaChecker
  ruleChecker :: RuleChecker
  splitChecker :: SplitChecker
  mergeChecker :: "MergeChecker option"
  jointStateChecker :: JointStateChecker
  priorityChecker :: PriorityChecker
  regionWaitingList :: addr

subsection \<open>The world the controller runs in\<close>

text \<open>
  The state that a call can touch: the store of caches, the limit counter
  \<^verbatim>\<open>operator.OperatorLimitCounter\<close> (a counter per pair of label values), and the
  state \<open>'x\<close> of the collaborators (cluster, configuration, operator controller, the
  checkers' own state such as the priority queue). \<open>events\<close> is a log that records
  each checker built and each checker consulted, in order; nothing reads it.
\<close>

datatype event = Built checker_kind | Consulted checker_kind

record 'x world =
  caches :: "addr \<Rightarrow> cache"
  next_cache :: addr
  OperatorLimitCounter :: "string \<times> string \<Rightarrow> nat"
  events :: "event list"
  ext :: 'x

text \<open>
  What the controller calls and whose code is not among the sources, taken as
  parameters. A checker's \<^verbatim>\<open>Check\<close> reads and may change the collaborators' state; the
  replica and the rule checker, which were given the waiting list, may change that cache
  too. \<^verbatim>\<open>OperatorCount\<close> and the schedule limits, which lines 86, 98 and 107
  compare, are unsigned 64-bit counts.
\<close>

record ('m, 'op, 'fit, 'x) collaborators =
  Cluster_GetOpts :: "ref \<Rightarrow> ref"
  IsPlacementRulesEnabled :: "ref \<Rightarrow> 'x \<Rightarrow> bool"
  GetReplicaScheduleLimit :: "ref \<Rightarrow> 'x \<Rightarrow> 64 word"
  GetMergeScheduleLimit :: "ref \<Rightarrow> 'x \<Rightarrow> 64 word"
  OperatorCount :: "ref \<Rightarrow> OpKind \<Rightarrow> 'x \<Rightarrow> 64 word"
  OpKind_String :: "OpKind \<Rightarrow> string"
  JointStateChecker_Check ::
    "JointStateChecker \<Rightarrow> 'm RegionInfo_scheme \<Rightarrow> 'x \<Rightarrow> 'op option \<times> 'x"
  SplitChecker_Check ::
    "SplitChecker \<Rightarrow> 'm RegionInfo_scheme \<Rightarrow> 'x \<Rightarrow> 'op option \<times> 'x"
  PriorityChecker_Check ::
    "PriorityChecker \<Rightarrow> 'm RegionInfo_scheme \<Rightarrow> 'x \<Rightarrow> 'fit option \<times> 'x"
  PriorityChecker_GetPriorityRegions :: "PriorityChecker \<Rightarrow> 'x \<Rightarrow> 64 word list"
  RuleChecker_CheckWithFit ::
    "RuleChecker \<Rightarrow> 'm RegionInfo_scheme \<Rightarrow> 'fit \<Rightarrow> cache \<Rightarrow> 'x
      \<Rightarrow> 'op option \<times> cache \<times> 'x"
  RuleChecker_GetType :: "RuleChecker \<Rightarrow> string"
  LearnerChecker_Check ::
    "LearnerChecker \<Rightarrow> 'm RegionInfo_scheme \<Rightarrow> 'x \<Rightarrow> 'op option \<times> 'x"
  ReplicaChecker_Check ::
    "ReplicaChecker \<Rightarrow> 'm RegionInfo_scheme \<Rightarrow> cache \<Rightarrow> 'x
      \<Rightarrow> 'op option \<times> cache \<times> 'x"
  ReplicaChecker_GetType :: "ReplicaChecker \<Rightarrow> string"
  MergeChecker_Check ::
    "MergeChecker \<Rightarrow> 'm RegionInfo_scheme \<Rightarrow> 'x \<Rightarrow> 'op list option \<times> 'x"
  MergeChecker_GetType :: "MergeChecker \<Rightarrow> string"

text \<open>
  Consulting a checker: its \<^verbatim>\<open>Check\<close> runs on the collaborators' state and the call is
  logged. The replica and the rule checker run on the cache they hold as well.
\<close>

definition consult ::
  "checker_kind \<Rightarrow> ('x \<Rightarrow> 'a \<times> 'x) \<Rightarrow> 'x world \<Rightarrow> 'a \<times> 'x world" where
  "consult k f w =
     (case f (ext w) of
        (res, x') \<Rightarrow> (res, w\<lparr>events := events w @ [Consulted k], ext := x'\<rparr>))"

definition consult_listed ::
  "checker_kind \<Rightarrow> addr \<Rightarrow> (cache \<Rightarrow> 'x \<Rightarrow> 'a \<times> cache \<times> 'x) \<Rightarrow> 'x world
    \<Rightarrow> 'a \<times> 'x world" where
  "consult_listed k a f w =
     (case f (caches w a) (ext w) of
        (res, ch', x') \<Rightarrow>
          (res, w\<lparr>caches := (caches w)(a := ch'),
                  events := events w @ [Consulted k], ext := x'\<rparr>))"

text \<open>
  \<^verbatim>\<open>operator.OperatorLimitCounter.WithLabelValues(t, k).Inc()\<close>: the counter of the
  label pair goes up by one.
\<close>

definition CounterVec_Inc ::
  "string \<Rightarrow> string \<Rightarrow> (string \<times> string \<Rightarrow> nat) \<Rightarrow> (string \<times> string \<Rightarrow> nat)" where
  "CounterVec_Inc t k f = f((t, k) := Suc (f (t, k)))"

definition OperatorLimitCounter_Inc :: "string \<Rightarrow> string \<Rightarrow> 'x world \<Rightarrow> 'x world" where
  "OperatorLimitCounter_Inc t k w =
     w\<lparr>OperatorLimitCounter := CounterVec_Inc t k (OperatorLimitCounter w)\<rparr>"

text \<open>\<^verbatim>\<open>c.regionWaitingList.Put(id, nil)\<close>, on the cache instance the controller holds.\<close>

definition regionWaitingList_Put :: "addr \<Rightarrow> 64 word \<Rightarrow> 'x world \<Rightarrow> 'x world" where
  "regionWaitingList_Put a k w = w\<lparr>caches := (caches w)(a := Put (caches w a) k)\<rparr>"

subsection \<open>Construction\<close>

text \<open>
  \<^verbatim>\<open>NewCheckerController\<close>: one cache is created, then the struct literal builds the
  seven checkers in the order of its fields. There is no error result.
\<close>

definition NewCheckerController ::
  "('m, 'op, 'fit, 'x) collaborators \<Rightarrow> ref \<Rightarrow> ref \<Rightarrow> ref \<Rightarrow> ref \<Rightarrow> ref \<Rightarrow> 'x world
    \<Rightarrow> CheckerController \<times> 'x world" where
  "NewCheckerController e ctx cl ruleManager labeler opc w =
     (let a = next_cache w;
          w1 = w\<lparr>caches := (caches w)(a := NewDefaultCache DefaultCacheSize),
                 next_cache := Suc a\<rparr>
      in (\<lparr>cluster = cl,
           opts = Cluster_GetOpts e cl,
           opController = opc,
           learnerChecker = NewLearnerChecker cl,
           replicaChecker = NewReplicaChecker cl a,
           ruleChecker = NewRuleChecker cl ruleManager a,
           splitChecker = NewSplitChecker cl ruleManager labeler,
           mergeChecker = Some (NewMergeChecker ctx cl),
           jointStateChecker = NewJointStateChecker cl,
           priorityChecker = NewPriorityChecker cl,
           regionWaitingList = a\<rparr>,
          w1\<lparr>events := events w1 @
                 [Built Learner, Built Replica, Built Rule, Built Split, Built Merge,
                  Built JointState, Built Priority]\<rparr>))"

subsection \<open>CheckRegion\<close>

text \<open>
  Lines 83 to 92, the branch taken when placement rules are enabled. The result is
  \<open>Some ops\<close> when the branch returns \<open>ops\<close> from \<^verbatim>\<open>CheckRegion\<close>, and \<open>None\<close> when control
  goes on to the merge step.
\<close>

definition rules_branch ::
  "('m, 'op, 'fit, 'x) collaborators \<Rightarrow> CheckerController \<Rightarrow> 'm RegionInfo_scheme
    \<Rightarrow> 'x world \<Rightarrow> 'op list option \<times> 'x world" where
  "rules_branch e c region w =
     (case consult Priority (PriorityChecker_Check e (priorityChecker c) region) w of
        (None, w1) \<Rightarrow> (None, w1)
      | (Some fit, w1) \<Rightarrow>
          (case consult_listed Rule (rule_waiting (ruleChecker c))
                  (RuleChecker_CheckWithFit e (ruleChecker c) region fit) w1 of
             (None, w2) \<Rightarrow> (None, w2)
           | (Some op, w2) \<Rightarrow>
               if OperatorCount e (opController c) OpReplica (ext w2)
                    < GetReplicaScheduleLimit e (opts c) (ext w2)
               then (Some [op], w2)
               else (None,
                     regionWaitingList_Put (regionWaitingList c) (GetID region)
                       (OperatorLimitCounter_Inc (RuleChecker_GetType e (ruleChecker c))
                          (OpKind_String e OpReplica) w2))))"

text \<open>Lines 94 to 103, the branch taken when placement rules are disabled.\<close>

definition non_rules_branch ::
  "('m, 'op, 'fit, 'x) collaborators \<Rightarrow> CheckerController \<Rightarrow> 'm RegionInfo_scheme
    \<Rightarrow> 'x world \<Rightarrow> 'op list option \<times> 'x world" where
  "non_rules_branch e c region w =
     (case consult Learner (LearnerChecker_Check e (learnerChecker c) region) w of
        (Some op, w1) \<Rightarrow> (Some [op], w1)
      | (None, w1) \<Rightarrow>
          (case consult_listed Replica (replica_waiting (replicaChecker c))
                  (ReplicaChecker_Check e (replicaChecker c) region) w1 of
             (None, w2) \<Rightarrow> (None, w2)
           | (Some op, w2) \<Rightarrow>
               if OperatorCount e (opController c) OpReplica (ext w2)
                    < GetReplicaScheduleLimit e (opts c) (ext w2)
               then (Some [op], w2)
               else (None,
                     regionWaitingList_Put (regionWaitingList c) (GetID region)
                       (OperatorLimitCounter_Inc
                          (ReplicaChecker_GetType e (replicaChecker c))
                          (OpKind_String e OpReplica) w2))))"

text \<open>
  Lines 74 to 104: the joint-state checker, the split checker, then one of the two
  branches, chosen by the configuration read after the split checker declined.
\<close>

definition before_merge ::
  "('m, 'op, 'fit, 'x) collaborators \<Rightarrow> CheckerController \<Rightarrow> 'm RegionInfo_scheme
    \<Rightarrow> 'x world \<Rightarrow> 'op list option \<times> 'x world" where
  "before_merge e c region w =
     (case consult JointState (JointStateChecker_Check e (jointStateChecker c) region) w of
        (Some op, w1) \<Rightarrow> (Some [op], w1)
      | (None, w1) \<Rightarrow>
          (case consult Split (SplitChecker_Check e (splitChecker c) region) w1 of
             (Some op, w2) \<Rightarrow> (Some [op], w2)
           | (None, w2) \<Rightarrow>
               if IsPlacementRulesEnabled e (opts c) (ext w2)
               then rules_branch e c region w2
               else non_rules_branch e c region w2))"

text \<open>
  Lines 106 to 117: the merge step and the final \<^verbatim>\<open>return nil\<close>. A \<^verbatim>\<open>nil\<close> slice is the
  empty list; the merge checker's \<^verbatim>\<open>Check\<close> gives \<open>None\<close> for \<^verbatim>\<open>nil\<close>.
\<close>

definition merge_step ::
  "('m, 'op, 'fit, 'x) collaborators \<Rightarrow> CheckerController \<Rightarrow> 'm RegionInfo_scheme
    \<Rightarrow> 'x world \<Rightarrow> 'op list \<times> 'x world" where
  "merge_step e c region w =
     (case mergeChecker c of
        None \<Rightarrow> ([], w)
      | Some mc \<Rightarrow>
          (let allowed = OperatorCount e (opController c) OpMerge (ext w)
                           < GetMergeScheduleLimit e (opts c) (ext w)
           in if \<not> allowed
              then ([], OperatorLimitCounter_Inc (MergeChecker_GetType e mc)
                          (OpKind_String e OpMerge) w)
              else (case consult Merge (MergeChecker_Check e mc region) w of
                      (Some ops, w1) \<Rightarrow> (ops, w1)
                    | (None, w1) \<Rightarrow> ([], w1))))"

text \<open>\<^verbatim>\<open>func (c *CheckerController) CheckRegion(region) []*operator.Operator\<close>\<close>

definition CheckRegion ::
  "('m, 'op, 'fit, 'x) collaborators \<Rightarrow> CheckerController \<Rightarrow> 'm RegionInfo_scheme
    \<Rightarrow> 'x world \<Rightarrow> 'op list \<times> 'x world" where
  "CheckRegion e c region w =
     (case before_merge e c region w of
        (Some ops, w1) \<Rightarrow> (ops, w1)
      | (None, w1) \<Rightarrow> merge_step e c region w1)"

subsection \<open>Accessors\<close>

text \<open>\<^verbatim>\<open>GetWaitingRegions\<close> and \<^verbatim>\<open>GetPriorityRegions\<close>: both only read.\<close>

definition GetWaitingRegions :: "CheckerController \<Rightarrow> 'x world \<Rightarrow> 64 word list" where
  "GetWaitingRegions c w = Elems (caches w (regionWaitingList c))"


text \<open>
  \<^verbatim>\<open>GetPauseController\<close> returns the address of the pause controller embedded in one of
  the checkers, named here by the checker that holds it, or the error
  \<^verbatim>\<open>errs.ErrCheckerNotFound\<close>. Taking \<^verbatim>\<open>&c.mergeChecker.PauseController\<close> through a
  \<^verbatim>\<open>nil\<close> merge checker is a run-time panic.
\<close>

datatype PauseControllerRef = PauseControllerOf checker_kind

datatype error = ErrCheckerNotFound | NilPointerDereference

definition GetPauseController ::
  "CheckerController \<Rightarrow> string \<Rightarrow> error + PauseControllerRef" where
  "GetPauseController c name =
     (if name = ''learner'' then Inr (PauseControllerOf Learner)
      else if name = ''replica'' then Inr (PauseControllerOf Replica)
      else if name = ''rule'' then Inr (PauseControllerOf Rule)
      else if name = ''split'' then Inr (PauseControllerOf Split)
      else if name = ''merge'' then
        (case mergeChecker c of
           None \<Rightarrow> Inl NilPointerDereference
         | Some mc \<Rightarrow> Inr (PauseControllerOf Merge))
      else if name = ''joint-state'' then Inr (PauseControllerOf JointState)
      else if name = ''priority'' then Inr (PauseControllerOf Priority)
      else Inl ErrCheckerNotFound)"

subsection \<open>Repeated calls\<close>


subsection \<open>Example collaborators\<close>

text \<open>
  A concrete set of collaborators on which the theorems below are instantiated: the
  collaborators' state is the priority queue, every checker declines and leaves the
  state as it is, placement rules are enabled, no operator is in flight and both limits
  are 8. The examples override single fields of it. The example controller is built by
  \<^verbatim>\<open>NewCheckerController\<close> in a world with no cache.
\<close>

definition quiet_collaborators :: "(unit, nat, nat, 64 word list) collaborators" where
  "quiet_collaborators =
     \<lparr>Cluster_GetOpts = (\<lambda>cl. Suc cl),
      IsPlacementRulesEnabled = (\<lambda>_ _. True),
      GetReplicaScheduleLimit = (\<lambda>_ _. 8),
      GetMergeScheduleLimit = (\<lambda>_ _. 8),
      OperatorCount = (\<lambda>_ _ _. 0),
      OpKind_String = (\<lambda>k. case k of OpReplica \<Rightarrow> ''replica'' | OpMerge \<Rightarrow> ''merge''),
      JointStateChecker_Check = (\<lambda>_ _ x. (None, x)),
      SplitChecker_Check = (\<lambda>_ _ x. (None, x)),
      PriorityChecker_Check = (\<lambda>_ _ x. (Some 0, x)),
      PriorityChecker_GetPriorityRegions = (\<lambda>_ x. x),
      RuleChecker_CheckWithFit = (\<lambda>_ _ _ ch x. (None, ch, x)),
      RuleChecker_GetType = (\<lambda>_. ''rule-checker''),
      LearnerChecker_Check = (\<lambda>_ _ x. (None, x)),
      ReplicaChecker_Check = (\<lambda>_ _ ch x. (None, ch, x)),
      ReplicaChecker_GetType = (\<lambda>_. ''replica-checker''),
      MergeChecker_Check = (\<lambda>_ _ x. (None, x)),
      MergeChecker_GetType = (\<lambda>_. ''merge-checker'')\<rparr>"

definition empty_world :: "64 word list world" where
  "empty_world =
     \<lparr>caches = (\<lambda>_. NewDefaultCache 0), next_cache = 0,
      OperatorLimitCounter = (\<lambda>_. 0), events = [], ext = []\<rparr>"

definition example_controller :: CheckerController where
  "example_controller = fst (NewCheckerController quiet_collaborators 0 1 2 3 4 empty_world)"

definition example_world :: "64 word list world" where
  "example_world = snd (NewCheckerController quiet_collaborators 0 1 2 3 4 empty_world)"

text \<open>
  Three variants: the rule checker proposes action 9 while eight replica operators are
  in flight, which is the limit; the same with placement rules disabled and the replica
  checker proposing; the merge checker proposes the pair of actions 10 and 11.
\<close>

definition at_limit_collaborators :: "(unit, nat, nat, 64 word list) collaborators" where
  "at_limit_collaborators =
     quiet_collaborators
       \<lparr>RuleChecker_CheckWithFit := (\<lambda>_ _ _ ch x. (Some 9, ch, x)),
        OperatorCount := (\<lambda>_ k _. case k of OpReplica \<Rightarrow> 8 | OpMerge \<Rightarrow> 0)\<rparr>"

definition replica_at_limit_collaborators ::
  "(unit, nat, nat, 64 word list) collaborators" where
  "replica_at_limit_collaborators =
     quiet_collaborators
       \<lparr>IsPlacementRulesEnabled := (\<lambda>_ _. False),
        ReplicaChecker_Check := (\<lambda>_ _ ch x. (Some 9, ch, x)),
        OperatorCount := (\<lambda>_ k _. case k of OpReplica \<Rightarrow> 8 | OpMerge \<Rightarrow> 0)\<rparr>"

definition merge_pair_collaborators :: "(unit, nat, nat, 64 word list) collaborators" where
  "merge_pair_collaborators =
     quiet_collaborators\<lparr>MergeChecker_Check := (\<lambda>_ _ x. (Some [10, 11], x))\<rparr>"

text \<open>
  Two more: the merge checker proposes three actions; and checkers that decline but
  do not keep still, where the priority checker queues the region, the rule checker
  puts the region on the waiting list it holds and proposes nothing, and eight merge
  operators are in flight, which is the limit.
\<close>

definition merge_triple_collaborators :: "(unit, nat, nat, 64 word list) collaborators" where
  "merge_triple_collaborators =
     quiet_collaborators\<lparr>MergeChecker_Check := (\<lambda>_ _ x. (Some [10, 11, 12], x))\<rparr>"


section \<open>Properties of the flow kinds\<close>

text \<open>
  C10. \<^verbatim>\<open>String\<close> and \<^verbatim>\<open>RegionStats\<close> are total over all 32-bit flow kinds:
  \<^verbatim>\<open>String\<close> is "write" for WriteFlow, "read" for ReadFlow and "unimplemented" for every
  other value; \<^verbatim>\<open>RegionStats\<close> is the three write kinds for WriteFlow, the three read
  kinds for ReadFlow, in the order bytes, keys, query, and empty for every other value.
  Both are functions that return a value on every input: there is no failing branch.
\<close>

theorem FlowKind_String_RegionStats_total:
  "String WriteFlow = ''write'' \<and> String ReadFlow = ''read''
   \<and> RegionStats WriteFlow = [RegionWriteBytes, RegionWriteKeys, RegionWriteQuery]
   \<and> RegionStats ReadFlow = [RegionReadBytes, RegionReadKeys, RegionReadQuery]
   \<and> (\<forall>k. k \<noteq> WriteFlow \<and> k \<noteq> ReadFlow \<longrightarrow>
          String k = ''unimplemented'' \<and> RegionStats k = [])
   \<and> (\<forall>k. String k \<in> {''write'', ''read'', ''unimplemented''})
   \<and> WriteFlow \<noteq> ReadFlow"
  by (simp add: String_def RegionStats_def WriteFlow_def ReadFlow_def)

theorem FlowKind_String_RegionStats_total_witness:
  "(7 :: FlowKind) \<noteq> WriteFlow \<and> (7 :: FlowKind) \<noteq> ReadFlow
   \<and> String 7 = ''unimplemented'' \<and> RegionStats 7 = []
   \<and> String 0 = ''write'' \<and> String 1 = ''read''"
  using FlowKind_String_RegionStats_total
  by (simp add: WriteFlow_def ReadFlow_def)

section \<open>The example controller and world, evaluated\<close>

lemma example_controller_eq:
  "example_controller =
     \<lparr>cluster = 1, opts = 2, opController = 4,
      learnerChecker = NewLearnerChecker 1,
      replicaChecker = NewReplicaChecker 1 0,
      ruleChecker = NewRuleChecker 1 2 0,
      splitChecker = NewSplitChecker 1 2 3,
      mergeChecker = Some (NewMergeChecker 0 1),
      jointStateChecker = NewJointStateChecker 1,
      priorityChecker = NewPriorityChecker 1,
      regionWaitingList = 0\<rparr>"
  by (simp add: example_controller_def NewCheckerController_def quiet_collaborators_def
      empty_world_def Let_def)

lemma example_world_eq:
  "example_world =
     \<lparr>caches = (\<lambda>_. NewDefaultCache 0)(0 := NewDefaultCache 1000), next_cache = 1,
      OperatorLimitCounter = (\<lambda>_. 0),
      events = [Built Learner, Built Replica, Built Rule, Built Split, Built Merge,
                Built JointState, Built Priority],
      ext = []\<rparr>"
  by (simp add: example_world_def NewCheckerController_def empty_world_def Let_def
      DefaultCacheSize_def)

section \<open>Symbolic execution of CheckRegion\<close>

text \<open>
  What a consultation and the two updates leave behind, and the paths through each part
  of \<^verbatim>\<open>CheckRegion\<close> as case rules.
\<close>

lemma OperatorLimitCounter_Inc_obs:
  "events (OperatorLimitCounter_Inc t k w) = events w"
  "caches (OperatorLimitCounter_Inc t k w) = caches w"
  "ext (OperatorLimitCounter_Inc t k w) = ext w"
  "OperatorLimitCounter (OperatorLimitCounter_Inc t k w)
     = CounterVec_Inc t k (OperatorLimitCounter w)"
  by (simp_all add: OperatorLimitCounter_Inc_def)

lemma regionWaitingList_Put_obs:
  "events (regionWaitingList_Put a k w) = events w"
  "caches (regionWaitingList_Put a k w) = (caches w)(a := Put (caches w a) k)"
  "ext (regionWaitingList_Put a k w) = ext w"
  "OperatorLimitCounter (regionWaitingList_Put a k w) = OperatorLimitCounter w"
  by (simp_all add: regionWaitingList_Put_def)

lemma rules_branch_cases:
  assumes "rules_branch e c region w = (r, w')"
  obtains
    (paused) "consult Priority (PriorityChecker_Check e (priorityChecker c) region) w
                = (None, w')" "r = None"
  | (declined) fit w1 where
      "consult Priority (PriorityChecker_Check e (priorityChecker c) region) w
         = (Some fit, w1)"
      "consult_listed Rule (rule_waiting (ruleChecker c))
         (RuleChecker_CheckWithFit e (ruleChecker c) region fit) w1 = (None, w')"
      "r = None"
  | (admitted) fit w1 op where
      "consult Priority (PriorityChecker_Check e (priorityChecker c) region) w
         = (Some fit, w1)"
      "consult_listed Rule (rule_waiting (ruleChecker c))
         (RuleChecker_CheckWithFit e (ruleChecker c) region fit) w1 = (Some op, w')"
      "OperatorCount e (opController c) OpReplica (ext w')
         < GetReplicaScheduleLimit e (opts c) (ext w')"
      "r = Some [op]"
  | (blocked) fit w1 op w2 where
      "consult Priority (PriorityChecker_Check e (priorityChecker c) region) w
         = (Some fit, w1)"
      "consult_listed Rule (rule_waiting (ruleChecker c))
         (RuleChecker_CheckWithFit e (ruleChecker c) region fit) w1 = (Some op, w2)"
      "\<not> OperatorCount e (opController c) OpReplica (ext w2)
         < GetReplicaScheduleLimit e (opts c) (ext w2)"
      "w' = regionWaitingList_Put (regionWaitingList c) (GetID region)
              (OperatorLimitCounter_Inc (RuleChecker_GetType e (ruleChecker c))
                 (OpKind_String e OpReplica) w2)"
      "r = None"
  using assms unfolding rules_branch_def
  by (auto split: prod.splits option.splits if_splits)

lemma non_rules_branch_cases:
  assumes "non_rules_branch e c region w = (r, w')"
  obtains
    (learner) op where
      "consult Learner (LearnerChecker_Check e (learnerChecker c) region) w = (Some op, w')"
      "r = Some [op]"
  | (declined) w1 where
      "consult Learner (LearnerChecker_Check e (learnerChecker c) region) w = (None, w1)"
      "consult_listed Replica (replica_waiting (replicaChecker c))
         (ReplicaChecker_Check e (replicaChecker c) region) w1 = (None, w')"
      "r = None"
  | (admitted) w1 op where
      "consult Learner (LearnerChecker_Check e (learnerChecker c) region) w = (None, w1)"
      "consult_listed Replica (replica_waiting (replicaChecker c))
         (ReplicaChecker_Check e (replicaChecker c) region) w1 = (Some op, w')"
      "OperatorCount e (opController c) OpReplica (ext w')
         < GetReplicaScheduleLimit e (opts c) (ext w')"
      "r = Some [op]"
  | (blocked) w1 op w2 where
      "consult Learner (LearnerChecker_Check e (learnerChecker c) region) w = (None, w1)"
      "consult_listed Replica (replica_waiting (replicaChecker c))
         (ReplicaChecker_Check e (replicaChecker c) region) w1 = (Some op, w2)"
      "\<not> OperatorCount e (opController c) OpReplica (ext w2)
         < GetReplicaScheduleLimit e (opts c) (ext w2)"
      "w' = regionWaitingList_Put (regionWaitingList c) (GetID region)
              (OperatorLimitCounter_Inc (ReplicaChecker_GetType e (replicaChecker c))
                 (OpKind_String e OpReplica) w2)"
      "r = None"
  using assms unfolding non_rules_branch_def
  by (auto split: prod.splits option.splits if_splits)

lemma before_merge_cases:
  assumes "before_merge e c region w = (r, w')"
  obtains
    (joint) op where
      "consult JointState (JointStateChecker_Check e (jointStateChecker c) region) w
         = (Some op, w')"
      "r = Some [op]"
  | (split) w1 op where
      "consult JointState (JointStateChecker_Check e (jointStateChecker c) region) w
         = (None, w1)"
      "consult Split (SplitChecker_Check e (splitChecker c) region) w1 = (Some op, w')"
      "r = Some [op]"
  | (rules) w1 w2 where
      "consult JointState (JointStateChecker_Check e (jointStateChecker c) region) w
         = (None, w1)"
      "consult Split (SplitChecker_Check e (splitChecker c) region) w1 = (None, w2)"
      "IsPlacementRulesEnabled e (opts c) (ext w2)"
      "rules_branch e c region w2 = (r, w')"
  | (non_rules) w1 w2 where
      "consult JointState (JointStateChecker_Check e (jointStateChecker c) region) w
         = (None, w1)"
      "consult Split (SplitChecker_Check e (splitChecker c) region) w1 = (None, w2)"
      "\<not> IsPlacementRulesEnabled e (opts c) (ext w2)"
      "non_rules_branch e c region w2 = (r, w')"
  using assms unfolding before_merge_def
  by (auto split: prod.splits option.splits if_splits)

lemma merge_step_cases:
  assumes "merge_step e c region w = (res, w')"
  obtains
    (absent) "mergeChecker c = None" "res = []" "w' = w"
  | (blocked) mc where
      "mergeChecker c = Some mc"
      "\<not> OperatorCount e (opController c) OpMerge (ext w)
         < GetMergeScheduleLimit e (opts c) (ext w)"
      "res = []"
      "w' = OperatorLimitCounter_Inc (MergeChecker_GetType e mc) (OpKind_String e OpMerge) w"
  | (proposed) mc where
      "mergeChecker c = Some mc"
      "OperatorCount e (opController c) OpMerge (ext w)
         < GetMergeScheduleLimit e (opts c) (ext w)"
      "consult Merge (MergeChecker_Check e mc region) w = (Some res, w')"
  | (declined) mc where
      "mergeChecker c = Some mc"
      "OperatorCount e (opController c) OpMerge (ext w)
         < GetMergeScheduleLimit e (opts c) (ext w)"
      "consult Merge (MergeChecker_Check e mc region) w = (None, w')"
      "res = []"
  using assms unfolding merge_step_def Let_def
  by (auto split: prod.splits option.splits if_splits)

lemma CheckRegion_cases:
  assumes "CheckRegion e c region w = (res, w')"
  obtains
    (returned) "before_merge e c region w = (Some res, w')"
  | (merge) w1 where
      "before_merge e c region w = (None, w1)"
      "merge_step e c region w1 = (res, w')"
  using assms unfolding CheckRegion_def
  by (auto split: prod.splits option.splits if_splits)


lemma consult_D:
  "consult k f w = (r, w') \<Longrightarrow>
   f (ext w) = (r, ext w') \<and> events w' = events w @ [Consulted k]
   \<and> caches w' = caches w \<and> OperatorLimitCounter w' = OperatorLimitCounter w"
  by (auto simp add: consult_def split: prod.splits)

lemma consult_listed_D:
  "consult_listed k a f w = (r, w') \<Longrightarrow>
   f (caches w a) (ext w) = (r, caches w' a, ext w')
   \<and> events w' = events w @ [Consulted k]
   \<and> caches w' = (caches w)(a := caches w' a)
   \<and> OperatorLimitCounter w' = OperatorLimitCounter w"
  by (auto simp add: consult_listed_def split: prod.splits)

lemmas step_obs = OperatorLimitCounter_Inc_obs regionWaitingList_Put_obs


lemma before_merge_trace:
  assumes "before_merge e c region w = (r, w')"
  shows "events w' \<in> (\<lambda>tr. events w @ map Consulted tr) `
           {[JointState], [JointState, Split],
            [JointState, Split, Priority], [JointState, Split, Priority, Rule],
            [JointState, Split, Learner], [JointState, Split, Learner, Replica]}"
  using assms
  apply (elim before_merge_cases rules_branch_cases non_rules_branch_cases)
  apply (auto dest!: consult_D consult_listed_D simp add: step_obs)
  done

lemma Put_contains:
  "0 < capacity ch \<Longrightarrow> k \<in> set (Elems (Put ch k))"
  by (auto simp add: Put_def Elems_def)

lemma merge_step_obs:
  assumes "merge_step e c region w = (res, w')"
  shows "caches w' = caches w"
    and "res = [] \<or> (\<exists>mc x'. mergeChecker c = Some mc
            \<and> MergeChecker_Check e mc region (ext w) = (Some res, x'))"
    and "OperatorLimitCounter w l \<le> OperatorLimitCounter w' l"
    and "mergeChecker c = None \<Longrightarrow> w' = w"
  using assms
  by (elim merge_step_cases;
      auto dest!: consult_D simp add: step_obs CounterVec_Inc_def)+



section \<open>Properties of CheckRegion\<close>

text \<open>
  C1. On a region for which the joint-state checker proposes an action, \<^verbatim>\<open>CheckRegion\<close>
  returns exactly the one-element result holding that action. The world afterwards is
  the world the joint-state checker left, with that one consultation logged: no other
  checker is consulted, the waiting list and the limit counter are untouched. This holds
  whatever the other checkers would propose: any collaborators and controller whose
  joint-state checker answers the same give the same result and world.
\<close>

theorem CheckRegion_joint_state_first:
  assumes "JointStateChecker_Check e (jointStateChecker c) region (ext w) = (Some op, x')"
  shows "CheckRegion e c region w
           = ([op], w\<lparr>events := events w @ [Consulted JointState], ext := x'\<rparr>)
         \<and> (\<forall>e' c'. JointStateChecker_Check e' (jointStateChecker c') region (ext w)
                        = (Some op, x')
                     \<longrightarrow> CheckRegion e' c' region w = CheckRegion e c region w)"
  using assms by (simp add: CheckRegion_def before_merge_def consult_def)

theorem CheckRegion_joint_state_first_witness:
  "JointStateChecker_Check
      (quiet_collaborators\<lparr>JointStateChecker_Check := (\<lambda>_ _ x. (Some 7, 5 # x)),
                            SplitChecker_Check := (\<lambda>_ _ x. (Some 8, x)),
                            RuleChecker_CheckWithFit := (\<lambda>_ _ _ ch x. (Some 9, ch, x)),
                            MergeChecker_Check := (\<lambda>_ _ x. (Some [10, 11], x))\<rparr>)
      (jointStateChecker example_controller) \<lparr>region_id = 42\<rparr> (ext example_world)
     = (Some 7, [5])
   \<and> CheckRegion
      (quiet_collaborators\<lparr>JointStateChecker_Check := (\<lambda>_ _ x. (Some 7, 5 # x)),
                            SplitChecker_Check := (\<lambda>_ _ x. (Some 8, x)),
                            RuleChecker_CheckWithFit := (\<lambda>_ _ _ ch x. (Some 9, ch, x)),
                            MergeChecker_Check := (\<lambda>_ _ x. (Some [10, 11], x))\<rparr>)
      example_controller \<lparr>region_id = 42\<rparr> example_world
     = ([7], example_world\<lparr>events := events example_world @ [Consulted JointState],
                            ext := [5]\<rparr>)"
proof -
  let ?e = "quiet_collaborators\<lparr>JointStateChecker_Check := (\<lambda>_ _ x. (Some 7, 5 # x)),
                            SplitChecker_Check := (\<lambda>_ _ x. (Some 8, x)),
                            RuleChecker_CheckWithFit := (\<lambda>_ _ _ ch x. (Some 9, ch, x)),
                            MergeChecker_Check := (\<lambda>_ _ x. (Some [10, 11], x))\<rparr>"
  have h: "JointStateChecker_Check ?e (jointStateChecker example_controller)
             \<lparr>region_id = 42\<rparr> (ext example_world) = (Some 7, [5])"
    by (simp add: example_world_def NewCheckerController_def empty_world_def Let_def)
  show ?thesis
    using h CheckRegion_joint_state_first [OF h, THEN conjunct1] by (rule conjI)
qed

text \<open>
  C2. Let the joint-state and the split checker decline on a region, and let a
  replica-category fix \<open>op\<close> be proposed: by the rule checker on the fit of the priority
  checker when placement rules are enabled, or by the replica checker after the learner
  checker declined when they are disabled. \<open>w4\<close> is the world that checker left, \<open>cnt\<close>
  the in-flight count of replica operators and \<open>lim\<close> the replica schedule limit, both
  read in \<open>w4\<close>. Up to the proposing checker the caches are those from before the call,
  and in \<open>w4\<close> the limit counter is still the one from before the call. If \<open>cnt < lim\<close>,
  and so when \<open>cnt\<close> is \<open>lim - 1\<close>, the call returns \<open>[op]\<close> in the world \<open>w4\<close>: the branch
  puts nothing on the waiting list and counts nothing. If not, and so when \<open>cnt = lim\<close>,
  the call goes on to the merge step in the world where the counter labelled with the
  proposing checker's type and the replica category is one higher and the region's
  identifier is put on the waiting list; the result is then empty or what the merge
  checker proposed, the waiting list is that of \<open>w4\<close> after the Put, which holds the
  identifier when the capacity is positive, and the counter of that label is higher
  than in \<open>w4\<close>.
\<close>

theorem CheckRegion_replica_limit_gate:
  assumes joint: "consult JointState (JointStateChecker_Check e (jointStateChecker c) region) w0
                    = (None, w1)"
    and split: "consult Split (SplitChecker_Check e (splitChecker c) region) w1 = (None, w2)"
    and proposal:
      "(IsPlacementRulesEnabled e (opts c) (ext w2)
        \<and> consult Priority (PriorityChecker_Check e (priorityChecker c) region) w2
            = (Some fit, w3)
        \<and> consult_listed Rule (rule_waiting (ruleChecker c))
              (RuleChecker_CheckWithFit e (ruleChecker c) region fit) w3 = (Some op, w4)
        \<and> ty = RuleChecker_GetType e (ruleChecker c))
       \<or> (\<not> IsPlacementRulesEnabled e (opts c) (ext w2)
        \<and> consult Learner (LearnerChecker_Check e (learnerChecker c) region) w2 = (None, w3)
        \<and> consult_listed Replica (replica_waiting (replicaChecker c))
              (ReplicaChecker_Check e (replicaChecker c) region) w3 = (Some op, w4)
        \<and> ty = ReplicaChecker_GetType e (replicaChecker c))"
    and cnt: "cnt = OperatorCount e (opController c) OpReplica (ext w4)"
    and lim: "lim = GetReplicaScheduleLimit e (opts c) (ext w4)"
    and wb: "wb = regionWaitingList_Put (regionWaitingList c) (GetID region)
                    (OperatorLimitCounter_Inc ty (OpKind_String e OpReplica) w4)"
  shows "caches w3 = caches w0 \<and> OperatorLimitCounter w4 = OperatorLimitCounter w0
         \<and> (cnt < lim \<longrightarrow> CheckRegion e c region w0 = ([op], w4))
         \<and> (uint cnt = uint lim - 1 \<longrightarrow> CheckRegion e c region w0 = ([op], w4))
         \<and> (\<not> cnt < lim \<longrightarrow> CheckRegion e c region w0 = merge_step e c region wb)
         \<and> (cnt = lim \<longrightarrow> CheckRegion e c region w0 = merge_step e c region wb)
         \<and> (\<not> cnt < lim \<longrightarrow>
              (case CheckRegion e c region w0 of
                 (res, w') \<Rightarrow>
                   (res = [] \<or> (\<exists>mc x'. mergeChecker c = Some mc
                        \<and> MergeChecker_Check e mc region (ext w4) = (Some res, x')))
                   \<and> caches w' = (caches w4)(regionWaitingList c :=
                                     Put (caches w4 (regionWaitingList c)) (GetID region))
                   \<and> GetWaitingRegions c w'
                       = Elems (Put (caches w4 (regionWaitingList c)) (GetID region))
                   \<and> (0 < capacity (caches w4 (regionWaitingList c))
                        \<longrightarrow> GetID region \<in> set (GetWaitingRegions c w'))
                   \<and> OperatorLimitCounter w4 (ty, OpKind_String e OpReplica)
                        < OperatorLimitCounter w' (ty, OpKind_String e OpReplica)
                   \<and> (mergeChecker c = None \<longrightarrow>
                        OperatorLimitCounter w'
                          = CounterVec_Inc ty (OpKind_String e OpReplica)
                              (OperatorLimitCounter w4))))"
proof -
  have bm: "before_merge e c region w0
              = (if cnt < lim then (Some [op], w4) else (None, wb))"
    using proposal
    by (auto simp add: before_merge_def joint split rules_branch_def non_rules_branch_def
        cnt lim wb)
  have admit: "cnt < lim \<Longrightarrow> CheckRegion e c region w0 = ([op], w4)"
    by (simp add: CheckRegion_def bm)
  have block: "\<not> cnt < lim \<Longrightarrow> CheckRegion e c region w0 = merge_step e c region wb"
    by (simp add: CheckRegion_def bm)
  have below: "uint cnt = uint lim - 1 \<Longrightarrow> cnt < lim"
    by (simp add: word_less_def)
  have after: "(res = [] \<or> (\<exists>mc x'. mergeChecker c = Some mc
                        \<and> MergeChecker_Check e mc region (ext w4) = (Some res, x')))
               \<and> caches w' = (caches w4)(regionWaitingList c :=
                                     Put (caches w4 (regionWaitingList c)) (GetID region))
               \<and> GetWaitingRegions c w'
                       = Elems (Put (caches w4 (regionWaitingList c)) (GetID region))
               \<and> (0 < capacity (caches w4 (regionWaitingList c))
                        \<longrightarrow> GetID region \<in> set (GetWaitingRegions c w'))
               \<and> OperatorLimitCounter w4 (ty, OpKind_String e OpReplica)
                        < OperatorLimitCounter w' (ty, OpKind_String e OpReplica)
               \<and> (mergeChecker c = None \<longrightarrow>
                        OperatorLimitCounter w'
                          = CounterVec_Inc ty (OpKind_String e OpReplica)
                              (OperatorLimitCounter w4))"
    if m: "merge_step e c region wb = (res, w')" for res w'
  proof -
    have ch: "caches w' = (caches w4)(regionWaitingList c :=
                 Put (caches w4 (regionWaitingList c)) (GetID region))"
      using merge_step_obs(1) [OF m] by (simp add: wb step_obs)
    have cn: "OperatorLimitCounter w4 (ty, OpKind_String e OpReplica)
                < OperatorLimitCounter w' (ty, OpKind_String e OpReplica)"
      using merge_step_obs(3) [OF m, of "(ty, OpKind_String e OpReplica)"]
      by (simp add: wb step_obs CounterVec_Inc_def)
    have rs: "res = [] \<or> (\<exists>mc x'. mergeChecker c = Some mc
                        \<and> MergeChecker_Check e mc region (ext w4) = (Some res, x'))"
      using merge_step_obs(2) [OF m] by (simp add: wb step_obs)
    have nm: "mergeChecker c = None \<Longrightarrow> OperatorLimitCounter w'
                = CounterVec_Inc ty (OpKind_String e OpReplica) (OperatorLimitCounter w4)"
      using merge_step_obs(4) [OF m] by (simp add: wb step_obs)
    show ?thesis
      using ch cn rs nm by (simp add: GetWaitingRegions_def Put_contains)
  qed
  have frame: "caches w3 = caches w0 \<and> OperatorLimitCounter w4 = OperatorLimitCounter w0"
    using consult_D [OF joint] consult_D [OF split] proposal
    by (auto dest!: consult_D consult_listed_D)
  show ?thesis
    using admit block below after frame
    by (cases "CheckRegion e c region w0") auto
qed

theorem CheckRegion_replica_limit_gate_witness:
  "OperatorCount at_limit_collaborators (opController example_controller) OpReplica []
     = GetReplicaScheduleLimit at_limit_collaborators (opts example_controller) []
   \<and> CheckRegion at_limit_collaborators example_controller \<lparr>region_id = 42\<rparr> example_world
      = ([], example_world
              \<lparr>caches := (caches example_world)(0 := \<lparr>capacity = 1000, keys = [42]\<rparr>),
               OperatorLimitCounter := (\<lambda>_. 0)((''rule-checker'', ''replica'') := 1),
               events := events example_world @
                 [Consulted JointState, Consulted Split, Consulted Priority,
                  Consulted Rule, Consulted Merge]\<rparr>)
   \<and> GetWaitingRegions example_controller
        (snd (CheckRegion at_limit_collaborators example_controller \<lparr>region_id = 42\<rparr>
                example_world)) = [42]
   \<and> CheckRegion replica_at_limit_collaborators example_controller \<lparr>region_id = 42\<rparr>
        example_world
      = ([], example_world
              \<lparr>caches := (caches example_world)(0 := \<lparr>capacity = 1000, keys = [42]\<rparr>),
               OperatorLimitCounter := (\<lambda>_. 0)((''replica-checker'', ''replica'') := 1),
               events := events example_world @
                 [Consulted JointState, Consulted Split, Consulted Learner,
                  Consulted Replica, Consulted Merge]\<rparr>)
   \<and> uint (OperatorCount (at_limit_collaborators\<lparr>OperatorCount := (\<lambda>_ _ _. 7)\<rparr>)
              (opController example_controller) OpReplica [])
     = uint (GetReplicaScheduleLimit (at_limit_collaborators\<lparr>OperatorCount := (\<lambda>_ _ _. 7)\<rparr>)
               (opts example_controller) []) - 1
   \<and> CheckRegion (at_limit_collaborators\<lparr>OperatorCount := (\<lambda>_ _ _. 7)\<rparr>)
        example_controller \<lparr>region_id = 42\<rparr> example_world
      = ([9], example_world\<lparr>events := events example_world @
            [Consulted JointState, Consulted Split, Consulted Priority, Consulted Rule]\<rparr>)"
proof -
  let ?e = "at_limit_collaborators"
  let ?f = "at_limit_collaborators\<lparr>OperatorCount := (\<lambda>_ _ _. 7)\<rparr>"
  let ?c = "example_controller"
  let ?r = "\<lparr>region_id = 42\<rparr> :: RegionInfo"
  let ?w1 = "example_world\<lparr>events := events example_world @ [Consulted JointState]\<rparr>"
  let ?w2 = "example_world\<lparr>events := events example_world @
               [Consulted JointState, Consulted Split]\<rparr>"
  let ?w3 = "example_world\<lparr>events := events example_world @
               [Consulted JointState, Consulted Split, Consulted Priority]\<rparr>"
  let ?w4 = "example_world\<lparr>events := events example_world @
               [Consulted JointState, Consulted Split, Consulted Priority, Consulted Rule]\<rparr>"
  note defs = at_limit_collaborators_def quiet_collaborators_def example_controller_eq
    example_world_eq consult_def consult_listed_def
  have j: "consult JointState (JointStateChecker_Check ?e (jointStateChecker ?c) ?r)
             example_world = (None, ?w1)"
    by (simp add: defs)
  have s: "consult Split (SplitChecker_Check ?e (splitChecker ?c) ?r) ?w1 = (None, ?w2)"
    by (simp add: defs)
  have p: "IsPlacementRulesEnabled ?e (opts ?c) (ext ?w2)
        \<and> consult Priority (PriorityChecker_Check ?e (priorityChecker ?c) ?r) ?w2
            = (Some 0, ?w3)
        \<and> consult_listed Rule (rule_waiting (ruleChecker ?c))
              (RuleChecker_CheckWithFit ?e (ruleChecker ?c) ?r 0) ?w3 = (Some 9, ?w4)
        \<and> ''rule-checker'' = RuleChecker_GetType ?e (ruleChecker ?c)"
    by (simp add: defs)
  have eq: "OperatorCount ?e (opController ?c) OpReplica []
              = GetReplicaScheduleLimit ?e (opts ?c) []"
    by (simp add: defs)
  have eq4: "OperatorCount ?e (opController ?c) OpReplica (ext ?w4)
              = GetReplicaScheduleLimit ?e (opts ?c) (ext ?w4)"
    by (simp add: defs)
  note t = CheckRegion_replica_limit_gate [OF j s disjI1 [OF p] refl refl refl]
  from t eq4 have run: "CheckRegion ?e ?c ?r example_world
      = merge_step ?e ?c ?r
          (regionWaitingList_Put (regionWaitingList ?c) (GetID ?r)
             (OperatorLimitCounter_Inc ''rule-checker'' (OpKind_String ?e OpReplica) ?w4))"
    by blast
  have val: "merge_step ?e ?c ?r
          (regionWaitingList_Put (regionWaitingList ?c) (GetID ?r)
             (OperatorLimitCounter_Inc ''rule-checker'' (OpKind_String ?e OpReplica) ?w4))
      = ([], example_world
              \<lparr>caches := (caches example_world)(0 := \<lparr>capacity = 1000, keys = [42]\<rparr>),
               OperatorLimitCounter := (\<lambda>_. 0)((''rule-checker'', ''replica'') := 1),
               events := events example_world @
                 [Consulted JointState, Consulted Split, Consulted Priority,
                  Consulted Rule, Consulted Merge]\<rparr>)"
    by (simp add: defs merge_step_def regionWaitingList_Put_def OperatorLimitCounter_Inc_def
        CounterVec_Inc_def GetID_def Put_def NewDefaultCache_def Let_def)
  have wl: "GetWaitingRegions ?c (snd (CheckRegion ?e ?c ?r example_world)) = [42]"
    by (simp add: run val) (simp add: GetWaitingRegions_def Elems_def example_controller_eq)
  have j': "consult JointState (JointStateChecker_Check ?f (jointStateChecker ?c) ?r)
             example_world = (None, ?w1)"
    by (simp add: defs)
  have s': "consult Split (SplitChecker_Check ?f (splitChecker ?c) ?r) ?w1 = (None, ?w2)"
    by (simp add: defs)
  have p': "IsPlacementRulesEnabled ?f (opts ?c) (ext ?w2)
        \<and> consult Priority (PriorityChecker_Check ?f (priorityChecker ?c) ?r) ?w2
            = (Some 0, ?w3)
        \<and> consult_listed Rule (rule_waiting (ruleChecker ?c))
              (RuleChecker_CheckWithFit ?f (ruleChecker ?c) ?r 0) ?w3 = (Some 9, ?w4)
        \<and> ''rule-checker'' = RuleChecker_GetType ?f (ruleChecker ?c)"
    by (simp add: defs)
  have below: "uint (OperatorCount ?f (opController ?c) OpReplica [])
                 = uint (GetReplicaScheduleLimit ?f (opts ?c) []) - 1"
    by (simp add: defs)
  have below4: "uint (OperatorCount ?f (opController ?c) OpReplica (ext ?w4))
                 = uint (GetReplicaScheduleLimit ?f (opts ?c) (ext ?w4)) - 1"
    by (simp add: defs)
  note t' = CheckRegion_replica_limit_gate [OF j' s' disjI1 [OF p'] refl refl refl]
  from t' below4 have run': "CheckRegion ?f ?c ?r example_world = ([9], ?w4)"
    by blast
  let ?g = "replica_at_limit_collaborators"
  let ?v3 = "example_world\<lparr>events := events example_world @
               [Consulted JointState, Consulted Split, Consulted Learner]\<rparr>"
  let ?v4 = "example_world\<lparr>events := events example_world @
               [Consulted JointState, Consulted Split, Consulted Learner, Consulted Replica]\<rparr>"
  note gdefs = replica_at_limit_collaborators_def quiet_collaborators_def
    example_controller_eq example_world_eq consult_def consult_listed_def
  have j'': "consult JointState (JointStateChecker_Check ?g (jointStateChecker ?c) ?r)
             example_world = (None, ?w1)"
    by (simp add: gdefs)
  have s'': "consult Split (SplitChecker_Check ?g (splitChecker ?c) ?r) ?w1 = (None, ?w2)"
    by (simp add: gdefs)
  have p'': "\<not> IsPlacementRulesEnabled ?g (opts ?c) (ext ?w2)
        \<and> consult Learner (LearnerChecker_Check ?g (learnerChecker ?c) ?r) ?w2
            = (None, ?v3)
        \<and> consult_listed Replica (replica_waiting (replicaChecker ?c))
              (ReplicaChecker_Check ?g (replicaChecker ?c) ?r) ?v3 = (Some 9, ?v4)
        \<and> ''replica-checker'' = ReplicaChecker_GetType ?g (replicaChecker ?c)"
    by (simp add: gdefs)
  have full: "\<not> OperatorCount ?g (opController ?c) OpReplica (ext ?v4)
                  < GetReplicaScheduleLimit ?g (opts ?c) (ext ?v4)"
    by (simp add: gdefs)
  note t'' = CheckRegion_replica_limit_gate [OF j'' s'' disjI2 [OF p''] refl refl refl]
  from t'' full have run'': "CheckRegion ?g ?c ?r example_world
      = merge_step ?g ?c ?r
          (regionWaitingList_Put (regionWaitingList ?c) (GetID ?r)
             (OperatorLimitCounter_Inc ''replica-checker'' (OpKind_String ?g OpReplica) ?v4))"
    by blast
  have val'': "merge_step ?g ?c ?r
          (regionWaitingList_Put (regionWaitingList ?c) (GetID ?r)
             (OperatorLimitCounter_Inc ''replica-checker'' (OpKind_String ?g OpReplica) ?v4))
      = ([], example_world
              \<lparr>caches := (caches example_world)(0 := \<lparr>capacity = 1000, keys = [42]\<rparr>),
               OperatorLimitCounter := (\<lambda>_. 0)((''replica-checker'', ''replica'') := 1),
               events := events example_world @
                 [Consulted JointState, Consulted Split, Consulted Learner,
                  Consulted Replica, Consulted Merge]\<rparr>)"
    by (simp add: gdefs merge_step_def regionWaitingList_Put_def OperatorLimitCounter_Inc_def
        CounterVec_Inc_def GetID_def Put_def NewDefaultCache_def Let_def)
  from eq run [unfolded val] wl run'' [unfolded val''] below run' show ?thesis by blast
qed

text \<open>
  C3. When a step before the merge step returns, \<^verbatim>\<open>CheckRegion\<close> returns that result in
  the world that step left and the merge checker is not consulted. When none returns,
  \<^verbatim>\<open>CheckRegion\<close> is the merge step. With a merge checker present, the limit is read
  first: if the in-flight count of merge operators is not below the merge schedule
  limit, the counter labelled with the merge checker's type and the merge category goes
  up, the merge checker is not consulted and the result is empty; if it is below and the
  merge checker proposes, the result is exactly the proposal, so both actions of a pair;
  if it is below and the merge checker declines, the result is empty.
\<close>

theorem CheckRegion_merge_last:
  "(before_merge e c region w = (Some ops, w1) \<longrightarrow>
      CheckRegion e c region w = (ops, w1)
      \<and> Consulted Merge \<notin> set (drop (length (events w)) (events w1)))
   \<and> (before_merge e c region w = (None, w1) \<longrightarrow>
        CheckRegion e c region w = merge_step e c region w1)
   \<and> (before_merge e c region w = (None, w1) \<and> mergeChecker c = Some mc
        \<and> \<not> OperatorCount e (opController c) OpMerge (ext w1)
              < GetMergeScheduleLimit e (opts c) (ext w1) \<longrightarrow>
        CheckRegion e c region w
          = ([], OperatorLimitCounter_Inc (MergeChecker_GetType e mc)
                   (OpKind_String e OpMerge) w1)
        \<and> Consulted Merge
            \<notin> set (drop (length (events w)) (events (snd (CheckRegion e c region w)))))
   \<and> (before_merge e c region w = (None, w1) \<and> mergeChecker c = Some mc
        \<and> OperatorCount e (opController c) OpMerge (ext w1)
              < GetMergeScheduleLimit e (opts c) (ext w1)
        \<and> MergeChecker_Check e mc region (ext w1) = (Some proposed, x') \<longrightarrow>
        CheckRegion e c region w
          = (proposed, w1\<lparr>events := events w1 @ [Consulted Merge], ext := x'\<rparr>)
        \<and> OperatorLimitCounter (snd (CheckRegion e c region w)) = OperatorLimitCounter w1)
   \<and> (before_merge e c region w = (None, w1) \<and> mergeChecker c = Some mc
        \<and> OperatorCount e (opController c) OpMerge (ext w1)
              < GetMergeScheduleLimit e (opts c) (ext w1)
        \<and> MergeChecker_Check e mc region (ext w1) = (Some [op1, op2], x') \<longrightarrow>
        fst (CheckRegion e c region w) = [op1, op2])
   \<and> (before_merge e c region w = (None, w1) \<and> mergeChecker c = Some mc
        \<and> OperatorCount e (opController c) OpMerge (ext w1)
              < GetMergeScheduleLimit e (opts c) (ext w1)
        \<and> MergeChecker_Check e mc region (ext w1) = (None, x') \<longrightarrow>
        CheckRegion e c region w
          = ([], w1\<lparr>events := events w1 @ [Consulted Merge], ext := x'\<rparr>))"
proof -
  have no_merge: "Consulted Merge \<notin> set (drop (length (events w)) (events w1))"
    if "before_merge e c region w = (r, w1)" for r
    using before_merge_trace [OF that] by auto
  show ?thesis
    using no_merge
    by (auto simp add: CheckRegion_def merge_step_def consult_def step_obs)
qed

theorem CheckRegion_merge_last_witness:
  "before_merge merge_pair_collaborators example_controller \<lparr>region_id = 42\<rparr> example_world
     = (None, example_world\<lparr>events := events example_world @
          [Consulted JointState, Consulted Split, Consulted Priority, Consulted Rule]\<rparr>)
   \<and> CheckRegion merge_pair_collaborators example_controller \<lparr>region_id = 42\<rparr>
        example_world
      = ([10, 11], example_world\<lparr>events := events example_world @
          [Consulted JointState, Consulted Split, Consulted Priority, Consulted Rule,
           Consulted Merge]\<rparr>)
   \<and> CheckRegion (merge_pair_collaborators\<lparr>OperatorCount := (\<lambda>_ _ _. 8)\<rparr>)
        example_controller \<lparr>region_id = 42\<rparr> example_world
      = ([], example_world
          \<lparr>OperatorLimitCounter := (\<lambda>_. 0)((''merge-checker'', ''merge'') := 1),
           events := events example_world @
             [Consulted JointState, Consulted Split, Consulted Priority, Consulted Rule]\<rparr>)
   \<and> CheckRegion quiet_collaborators example_controller \<lparr>region_id = 42\<rparr> example_world
      = ([], example_world\<lparr>events := events example_world @
          [Consulted JointState, Consulted Split, Consulted Priority, Consulted Rule,
           Consulted Merge]\<rparr>)
   \<and> before_merge (at_limit_collaborators\<lparr>OperatorCount := (\<lambda>_ _ _. 7)\<rparr>)
        example_controller \<lparr>region_id = 42\<rparr> example_world
      = (Some [9], example_world\<lparr>events := events example_world @
          [Consulted JointState, Consulted Split, Consulted Priority, Consulted Rule]\<rparr>)
   \<and> CheckRegion (at_limit_collaborators\<lparr>OperatorCount := (\<lambda>_ _ _. 7)\<rparr>)
        example_controller \<lparr>region_id = 42\<rparr> example_world
      = ([9], example_world\<lparr>events := events example_world @
          [Consulted JointState, Consulted Split, Consulted Priority, Consulted Rule]\<rparr>)"
proof -
  let ?e = "merge_pair_collaborators"
  let ?f = "merge_pair_collaborators\<lparr>OperatorCount := (\<lambda>_ _ _. 8)\<rparr>"
  let ?c = "example_controller"
  let ?r = "\<lparr>region_id = 42\<rparr> :: RegionInfo"
  let ?w1 = "example_world\<lparr>events := events example_world @
          [Consulted JointState, Consulted Split, Consulted Priority, Consulted Rule]\<rparr>"
  note defs = merge_pair_collaborators_def quiet_collaborators_def example_controller_eq
    example_world_eq consult_def consult_listed_def
  have b: "before_merge ?e ?c ?r example_world = (None, ?w1)"
    by (simp add: defs before_merge_def rules_branch_def)
  have b': "before_merge ?f ?c ?r example_world = (None, ?w1)"
    by (simp add: defs before_merge_def rules_branch_def)
  have m: "mergeChecker ?c = Some (NewMergeChecker 0 1)"
    by (simp add: example_controller_eq)
  have allowed: "OperatorCount ?e (opController ?c) OpMerge (ext ?w1)
                   < GetMergeScheduleLimit ?e (opts ?c) (ext ?w1)"
    by (simp add: defs)
  have blocked: "\<not> OperatorCount ?f (opController ?c) OpMerge (ext ?w1)
                   < GetMergeScheduleLimit ?f (opts ?c) (ext ?w1)"
    by (simp add: defs)
  have proposes: "MergeChecker_Check ?e (NewMergeChecker 0 1) ?r (ext ?w1) = (Some [10, 11], [])"
    by (simp add: defs)
  note t = CheckRegion_merge_last [of ?e ?c ?r example_world _ ?w1 "NewMergeChecker 0 1"
      "[10, 11]" "[]"]
  from t b m allowed proposes
  have r1: "CheckRegion ?e ?c ?r example_world
              = ([10, 11], ?w1\<lparr>events := events ?w1 @ [Consulted Merge], ext := []\<rparr>)"
    by blast
  note t' = CheckRegion_merge_last [of ?f ?c ?r example_world _ ?w1 "NewMergeChecker 0 1"]
  from t' b' m blocked
  have r2: "CheckRegion ?f ?c ?r example_world
              = ([], OperatorLimitCounter_Inc (MergeChecker_GetType ?f (NewMergeChecker 0 1))
                   (OpKind_String ?f OpMerge) ?w1)"
    by blast
  have v1: "?w1\<lparr>events := events ?w1 @ [Consulted Merge], ext := []\<rparr>
              = example_world\<lparr>events := events example_world @
          [Consulted JointState, Consulted Split, Consulted Priority, Consulted Rule,
           Consulted Merge]\<rparr>"
    by (simp add: example_world_eq)
  have v2: "OperatorLimitCounter_Inc (MergeChecker_GetType ?f (NewMergeChecker 0 1))
                   (OpKind_String ?f OpMerge) ?w1
            = example_world
          \<lparr>OperatorLimitCounter := (\<lambda>_. 0)((''merge-checker'', ''merge'') := 1),
           events := events example_world @
             [Consulted JointState, Consulted Split, Consulted Priority, Consulted Rule]\<rparr>"
    by (simp add: defs OperatorLimitCounter_Inc_def CounterVec_Inc_def)
  let ?q = "quiet_collaborators"
  let ?a = "at_limit_collaborators\<lparr>OperatorCount := (\<lambda>_ _ _. 7)\<rparr>"
  have bq: "before_merge ?q ?c ?r example_world = (None, ?w1)"
    by (simp add: defs before_merge_def rules_branch_def)
  have allowed_q: "OperatorCount ?q (opController ?c) OpMerge (ext ?w1)
                   < GetMergeScheduleLimit ?q (opts ?c) (ext ?w1)"
    by (simp add: defs)
  have declines: "MergeChecker_Check ?q (NewMergeChecker 0 1) ?r (ext ?w1) = (None, [])"
    by (simp add: defs)
  note tq = CheckRegion_merge_last [of ?q ?c ?r example_world _ ?w1 "NewMergeChecker 0 1"
      _ "[]"]
  from tq bq m allowed_q declines
  have r3: "CheckRegion ?q ?c ?r example_world
              = ([], ?w1\<lparr>events := events ?w1 @ [Consulted Merge], ext := []\<rparr>)"
    by blast
  have ba: "before_merge ?a ?c ?r example_world = (Some [9], ?w1)"
    by (simp add: defs at_limit_collaborators_def before_merge_def rules_branch_def)
  note ta = CheckRegion_merge_last [of ?a ?c ?r example_world "[9]" ?w1]
  from ta ba have r4: "CheckRegion ?a ?c ?r example_world = ([9], ?w1)"
    by blast
  from b r1 [unfolded v1] r2 [unfolded v2] r3 [unfolded v1] ba r4 show ?thesis by blast
qed

text \<open>
  C4. \<open>tr\<close> is what one call of \<^verbatim>\<open>CheckRegion\<close> adds to the log, and \<open>w2\<close> the world in
  which line 82 reads the configuration (after the joint-state and the split checker).
  The call consults checkers in one of nine orders. The priority and the rule checker
  are consulted only if placement rules are enabled in \<open>w2\<close>, the learner and the replica
  checker only if they are disabled, so never checkers of both branches in one call;
  and the rule checker is consulted only on a fit: when the priority checker returns
  none, the rule checker is not consulted.
\<close>

theorem CheckRegion_branches_exclusive:
  assumes run: "CheckRegion e c region w = (res, w')"
    and w2: "w2 = snd (consult Split (SplitChecker_Check e (splitChecker c) region)
                    (snd (consult JointState
                            (JointStateChecker_Check e (jointStateChecker c) region) w)))"
    and tr: "tr = drop (length (events w)) (events w')"
  shows "events w' = events w @ tr
         \<and> tr \<in> map Consulted `
               {[JointState], [JointState, Split],
                [JointState, Split, Priority], [JointState, Split, Priority, Merge],
                [JointState, Split, Priority, Rule],
                [JointState, Split, Priority, Rule, Merge],
                [JointState, Split, Learner], [JointState, Split, Learner, Replica],
                [JointState, Split, Learner, Replica, Merge]}
         \<and> (Consulted Priority \<in> set tr \<or> Consulted Rule \<in> set tr
              \<longrightarrow> IsPlacementRulesEnabled e (opts c) (ext w2))
         \<and> (Consulted Learner \<in> set tr \<or> Consulted Replica \<in> set tr
              \<longrightarrow> \<not> IsPlacementRulesEnabled e (opts c) (ext w2))
         \<and> \<not> ((Consulted Priority \<in> set tr \<or> Consulted Rule \<in> set tr)
                \<and> (Consulted Learner \<in> set tr \<or> Consulted Replica \<in> set tr))
         \<and> (Consulted Rule \<in> set tr
              \<longrightarrow> fst (PriorityChecker_Check e (priorityChecker c) region (ext w2)) \<noteq> None)
         \<and> (Consulted Priority \<in> set tr
              \<and> fst (PriorityChecker_Check e (priorityChecker c) region (ext w2)) = None
              \<longrightarrow> Consulted Rule \<notin> set tr)"
  using run unfolding w2 tr
  apply (elim CheckRegion_cases before_merge_cases rules_branch_cases
      non_rules_branch_cases merge_step_cases)
                      apply (auto dest!: consult_D consult_listed_D simp add: step_obs)
  done


theorem CheckRegion_branches_exclusive_witness:
  "drop (length (events example_world))
     (events (snd (CheckRegion quiet_collaborators example_controller \<lparr>region_id = 42\<rparr>
                     example_world)))
     = [Consulted JointState, Consulted Split, Consulted Priority, Consulted Rule,
        Consulted Merge]
   \<and> IsPlacementRulesEnabled quiet_collaborators (opts example_controller) []
   \<and> drop (length (events example_world))
     (events (snd (CheckRegion
                     (quiet_collaborators\<lparr>IsPlacementRulesEnabled := (\<lambda>_ _. False)\<rparr>)
                     example_controller \<lparr>region_id = 42\<rparr> example_world)))
     = [Consulted JointState, Consulted Split, Consulted Learner, Consulted Replica,
        Consulted Merge]
   \<and> drop (length (events example_world))
     (events (snd (CheckRegion
                     (quiet_collaborators\<lparr>PriorityChecker_Check := (\<lambda>_ _ x. (None, x))\<rparr>)
                     example_controller \<lparr>region_id = 42\<rparr> example_world)))
     = [Consulted JointState, Consulted Split, Consulted Priority, Consulted Merge]"
proof -
  let ?e = "quiet_collaborators"
  let ?f = "quiet_collaborators\<lparr>IsPlacementRulesEnabled := (\<lambda>_ _. False)\<rparr>"
  let ?g = "quiet_collaborators\<lparr>PriorityChecker_Check := (\<lambda>_ _ x. (None, x))\<rparr>"
  let ?c = "example_controller"
  let ?r = "\<lparr>region_id = 42\<rparr> :: RegionInfo"
  note defs = quiet_collaborators_def example_controller_eq
    example_world_eq consult_def consult_listed_def CheckRegion_def before_merge_def
    rules_branch_def non_rules_branch_def merge_step_def
  have run: "CheckRegion e ?c ?r example_world
               = (fst (CheckRegion e ?c ?r example_world),
                  snd (CheckRegion e ?c ?r example_world))"
    for e :: "(unit, nat, nat, 64 word list) collaborators"
    by simp
  note t = CheckRegion_branches_exclusive [OF run refl refl]
  have v1: "Consulted Rule \<in> set (drop (length (events example_world))
     (events (snd (CheckRegion ?e ?c ?r example_world))))"
    by (simp add: defs)
  have v2: "Consulted Learner \<in> set (drop (length (events example_world))
     (events (snd (CheckRegion ?f ?c ?r example_world))))"
    by (simp add: defs)
  have v3: "Consulted Priority \<in> set (drop (length (events example_world))
     (events (snd (CheckRegion ?g ?c ?r example_world))))"
    "fst (PriorityChecker_Check ?g (priorityChecker ?c) ?r
       (ext (snd (consult Split (SplitChecker_Check ?g (splitChecker ?c) ?r)
                    (snd (consult JointState
                            (JointStateChecker_Check ?g (jointStateChecker ?c) ?r)
                            example_world)))))) = None"
    by (simp_all add: defs)
  from t [of ?e] v1
  have a: "IsPlacementRulesEnabled ?e (opts ?c)
       (ext (snd (consult Split (SplitChecker_Check ?e (splitChecker ?c) ?r)
                    (snd (consult JointState
                            (JointStateChecker_Check ?e (jointStateChecker ?c) ?r)
                            example_world)))))"
    by blast
  then have a': "IsPlacementRulesEnabled ?e (opts ?c) []"
    by (simp add: defs)
  from t [of ?f] v2
  have b: "Consulted Priority \<notin> set (drop (length (events example_world))
     (events (snd (CheckRegion ?f ?c ?r example_world))))"
    by blast
  from t [of ?g] v3
  have c: "Consulted Rule \<notin> set (drop (length (events example_world))
     (events (snd (CheckRegion ?g ?c ?r example_world))))"
    by blast
  have w1: "drop (length (events example_world))
     (events (snd (CheckRegion ?e ?c ?r example_world)))
     = [Consulted JointState, Consulted Split, Consulted Priority, Consulted Rule,
        Consulted Merge]"
    by (simp add: defs)
  have w2: "drop (length (events example_world))
     (events (snd (CheckRegion ?f ?c ?r example_world)))
     = [Consulted JointState, Consulted Split, Consulted Learner, Consulted Replica,
        Consulted Merge]"
    using b by (simp add: defs)
  have w3: "drop (length (events example_world))
     (events (snd (CheckRegion ?g ?c ?r example_world)))
     = [Consulted JointState, Consulted Split, Consulted Priority, Consulted Merge]"
    using c by (simp add: defs)
  from w1 a' w2 w3 show ?thesis by blast
qed

text \<open>
  C5. The limit counter after one call of \<^verbatim>\<open>CheckRegion\<close> is the counter before with
  at most two increments, each under the label of its path: the rule checker's type with
  the replica category, and then the rule checker was consulted and the replica checker
  was not; the replica checker's type with the replica category, and then the replica
  checker was consulted and the rule checker was not; the merge checker's type with the
  merge category, alone or after one of the two others, and then the merge checker
  itself was not consulted, as the limit stopped the step before it.
\<close>

theorem CheckRegion_limit_counter_labels:
  assumes run: "CheckRegion e c region w = (res, w')"
    and tr: "tr = drop (length (events w)) (events w')"
  shows "OperatorLimitCounter w' = OperatorLimitCounter w
         \<or> (Consulted Rule \<in> set tr \<and> Consulted Replica \<notin> set tr
            \<and> OperatorLimitCounter w'
                = CounterVec_Inc (RuleChecker_GetType e (ruleChecker c))
                    (OpKind_String e OpReplica) (OperatorLimitCounter w))
         \<or> (Consulted Replica \<in> set tr \<and> Consulted Rule \<notin> set tr
            \<and> OperatorLimitCounter w'
                = CounterVec_Inc (ReplicaChecker_GetType e (replicaChecker c))
                    (OpKind_String e OpReplica) (OperatorLimitCounter w))
         \<or> (\<exists>mc. mergeChecker c = Some mc \<and> Consulted Merge \<notin> set tr
            \<and> OperatorLimitCounter w'
                = CounterVec_Inc (MergeChecker_GetType e mc) (OpKind_String e OpMerge)
                    (OperatorLimitCounter w))
         \<or> (\<exists>mc. mergeChecker c = Some mc
            \<and> Consulted Rule \<in> set tr \<and> Consulted Replica \<notin> set tr
            \<and> Consulted Merge \<notin> set tr
            \<and> OperatorLimitCounter w'
                = CounterVec_Inc (MergeChecker_GetType e mc) (OpKind_String e OpMerge)
                    (CounterVec_Inc (RuleChecker_GetType e (ruleChecker c))
                       (OpKind_String e OpReplica) (OperatorLimitCounter w)))
         \<or> (\<exists>mc. mergeChecker c = Some mc
            \<and> Consulted Replica \<in> set tr \<and> Consulted Rule \<notin> set tr
            \<and> Consulted Merge \<notin> set tr
            \<and> OperatorLimitCounter w'
                = CounterVec_Inc (MergeChecker_GetType e mc) (OpKind_String e OpMerge)
                    (CounterVec_Inc (ReplicaChecker_GetType e (replicaChecker c))
                       (OpKind_String e OpReplica) (OperatorLimitCounter w)))"
proof -
  obtain r w1 where bm: "before_merge e c region w = (r, w1)"
    by (cases "before_merge e c region w")
  have ms: "(r \<noteq> None \<and> w' = w1) \<or> (r = None \<and> merge_step e c region w1 = (res, w'))"
    using run bm by (auto simp add: CheckRegion_def split: option.splits)
  from bm have first:
    "\<exists>tr1. events w1 = events w @ tr1 \<and> Consulted Merge \<notin> set tr1
       \<and> (OperatorLimitCounter w1 = OperatorLimitCounter w
           \<or> (Consulted Rule \<in> set tr1 \<and> Consulted Replica \<notin> set tr1
              \<and> OperatorLimitCounter w1
                  = CounterVec_Inc (RuleChecker_GetType e (ruleChecker c))
                      (OpKind_String e OpReplica) (OperatorLimitCounter w))
           \<or> (Consulted Replica \<in> set tr1 \<and> Consulted Rule \<notin> set tr1
              \<and> OperatorLimitCounter w1
                  = CounterVec_Inc (ReplicaChecker_GetType e (replicaChecker c))
                      (OpKind_String e OpReplica) (OperatorLimitCounter w)))"
    apply (elim before_merge_cases rules_branch_cases non_rules_branch_cases)
             apply (auto dest!: consult_D consult_listed_D simp add: step_obs)
    done
  then obtain tr1 where e1: "events w1 = events w @ tr1"
    and nm: "Consulted Merge \<notin> set tr1"
    and c1: "OperatorLimitCounter w1 = OperatorLimitCounter w
           \<or> (Consulted Rule \<in> set tr1 \<and> Consulted Replica \<notin> set tr1
              \<and> OperatorLimitCounter w1
                  = CounterVec_Inc (RuleChecker_GetType e (ruleChecker c))
                      (OpKind_String e OpReplica) (OperatorLimitCounter w))
           \<or> (Consulted Replica \<in> set tr1 \<and> Consulted Rule \<notin> set tr1
              \<and> OperatorLimitCounter w1
                  = CounterVec_Inc (ReplicaChecker_GetType e (replicaChecker c))
                      (OpKind_String e OpReplica) (OperatorLimitCounter w))"
    by blast
  have second:
    "(OperatorLimitCounter w' = OperatorLimitCounter w1
        \<and> (events w' = events w1 \<or> events w' = events w1 @ [Consulted Merge]))
     \<or> (\<exists>mc. mergeChecker c = Some mc \<and> events w' = events w1
           \<and> OperatorLimitCounter w'
               = CounterVec_Inc (MergeChecker_GetType e mc) (OpKind_String e OpMerge)
                   (OperatorLimitCounter w1))"
    using ms
  proof
    assume "r \<noteq> None \<and> w' = w1"
    then show ?thesis by simp
  next
    assume "r = None \<and> merge_step e c region w1 = (res, w')"
    then have "merge_step e c region w1 = (res, w')" by simp
    then show ?thesis
      by (elim merge_step_cases) (auto dest!: consult_D simp add: step_obs)
  qed
  from second show ?thesis
  proof (elim disjE exE conjE)
    assume "OperatorLimitCounter w' = OperatorLimitCounter w1" "events w' = events w1"
    with e1 c1 show ?thesis by (auto simp add: tr)
  next
    assume "OperatorLimitCounter w' = OperatorLimitCounter w1"
      "events w' = events w1 @ [Consulted Merge]"
    with e1 c1 show ?thesis by (auto simp add: tr)
  next
    fix mc
    assume "mergeChecker c = Some mc" "events w' = events w1"
      "OperatorLimitCounter w'
         = CounterVec_Inc (MergeChecker_GetType e mc) (OpKind_String e OpMerge)
             (OperatorLimitCounter w1)"
    with e1 c1 nm show ?thesis by (auto simp add: tr)
  qed
qed

theorem CheckRegion_limit_counter_labels_witness:
  "OperatorLimitCounter
     (snd (CheckRegion at_limit_collaborators example_controller \<lparr>region_id = 42\<rparr>
             example_world))
     = CounterVec_Inc ''rule-checker'' ''replica'' (OperatorLimitCounter example_world)
   \<and> Consulted Rule \<in> set (drop (length (events example_world))
        (events (snd (CheckRegion at_limit_collaborators example_controller
                        \<lparr>region_id = 42\<rparr> example_world))))
   \<and> OperatorLimitCounter
     (snd (CheckRegion (at_limit_collaborators\<lparr>OperatorCount := (\<lambda>_ _ _. 8)\<rparr>)
             example_controller \<lparr>region_id = 42\<rparr> example_world))
     = CounterVec_Inc ''merge-checker'' ''merge''
         (CounterVec_Inc ''rule-checker'' ''replica'' (OperatorLimitCounter example_world))"
proof -
  let ?e = "at_limit_collaborators"
  let ?f = "at_limit_collaborators\<lparr>OperatorCount := (\<lambda>_ _ _. 8)\<rparr>"
  let ?c = "example_controller"
  let ?r = "\<lparr>region_id = 42\<rparr> :: RegionInfo"
  note defs = at_limit_collaborators_def quiet_collaborators_def example_controller_eq
    example_world_eq consult_def consult_listed_def CheckRegion_def before_merge_def
    rules_branch_def non_rules_branch_def merge_step_def regionWaitingList_Put_def
    OperatorLimitCounter_Inc_def
  have run: "CheckRegion e ?c ?r example_world
               = (fst (CheckRegion e ?c ?r example_world),
                  snd (CheckRegion e ?c ?r example_world))"
    for e :: "(unit, nat, nat, 64 word list) collaborators"
    by simp
  note t = CheckRegion_limit_counter_labels [OF run refl]
  have v1: "OperatorLimitCounter (snd (CheckRegion ?e ?c ?r example_world))
     = CounterVec_Inc ''rule-checker'' ''replica'' (OperatorLimitCounter example_world)"
    using t [of ?e] by (simp add: defs)
  have v2: "Consulted Rule \<in> set (drop (length (events example_world))
        (events (snd (CheckRegion ?e ?c ?r example_world))))"
    using t [of ?e] by (simp add: defs)
  have v3: "OperatorLimitCounter (snd (CheckRegion ?f ?c ?r example_world))
     = CounterVec_Inc ''merge-checker'' ''merge''
         (CounterVec_Inc ''rule-checker'' ''replica'' (OperatorLimitCounter example_world))"
    using t [of ?f] by (simp add: defs)
  from v1 v2 v3 show ?thesis by blast
qed




text \<open>
  C8. The result of one call of \<^verbatim>\<open>CheckRegion\<close> is fixed path by path. It is the one
  action \<open>[op]\<close>, in the world the proposing checker left, when the joint-state checker
  proposes \<open>op\<close>; when it declines and the split checker proposes \<open>op\<close>; when both decline,
  placement rules are enabled, the priority checker gives a fit, the rule checker
  proposes \<open>op\<close> and the replica count is below its limit; when both decline, rules are
  disabled and the learner checker proposes \<open>op\<close>; and when the learner checker declines
  too, the replica checker proposes \<open>op\<close> and the replica count is below its limit. When
  no step before the merge step returns, the result is exactly what the merge checker
  proposes if there is a merge checker, the merge limit admits and it proposes, and
  empty otherwise. These are all the outcomes: either a single action was returned
  right after one of those five checkers was consulted, or no step before the merge
  step returned. So the result has at most one action unless it is the merge checker's
  proposal, whatever that proposal's size, and at most two whenever the merge checker
  proposes at most a pair.
\<close>

theorem CheckRegion_result_paths:
  assumes run: "CheckRegion e c region w = (res, w')"
  shows
    "(consult JointState (JointStateChecker_Check e (jointStateChecker c) region) w
        = (Some op, w1) \<longrightarrow> res = [op] \<and> w' = w1)
     \<and> (consult JointState (JointStateChecker_Check e (jointStateChecker c) region) w
          = (None, w1)
        \<and> consult Split (SplitChecker_Check e (splitChecker c) region) w1 = (Some op, w2)
        \<longrightarrow> res = [op] \<and> w' = w2)
     \<and> (consult JointState (JointStateChecker_Check e (jointStateChecker c) region) w
          = (None, w1)
        \<and> consult Split (SplitChecker_Check e (splitChecker c) region) w1 = (None, w2)
        \<and> IsPlacementRulesEnabled e (opts c) (ext w2)
        \<and> consult Priority (PriorityChecker_Check e (priorityChecker c) region) w2
            = (Some fit, w3)
        \<and> consult_listed Rule (rule_waiting (ruleChecker c))
              (RuleChecker_CheckWithFit e (ruleChecker c) region fit) w3 = (Some op, w4)
        \<and> OperatorCount e (opController c) OpReplica (ext w4)
              < GetReplicaScheduleLimit e (opts c) (ext w4)
        \<longrightarrow> res = [op] \<and> w' = w4)
     \<and> (consult JointState (JointStateChecker_Check e (jointStateChecker c) region) w
          = (None, w1)
        \<and> consult Split (SplitChecker_Check e (splitChecker c) region) w1 = (None, w2)
        \<and> \<not> IsPlacementRulesEnabled e (opts c) (ext w2)
        \<and> consult Learner (LearnerChecker_Check e (learnerChecker c) region) w2
            = (Some op, w3)
        \<longrightarrow> res = [op] \<and> w' = w3)
     \<and> (consult JointState (JointStateChecker_Check e (jointStateChecker c) region) w
          = (None, w1)
        \<and> consult Split (SplitChecker_Check e (splitChecker c) region) w1 = (None, w2)
        \<and> \<not> IsPlacementRulesEnabled e (opts c) (ext w2)
        \<and> consult Learner (LearnerChecker_Check e (learnerChecker c) region) w2
            = (None, w3)
        \<and> consult_listed Replica (replica_waiting (replicaChecker c))
              (ReplicaChecker_Check e (replicaChecker c) region) w3 = (Some op, w4)
        \<and> OperatorCount e (opController c) OpReplica (ext w4)
              < GetReplicaScheduleLimit e (opts c) (ext w4)
        \<longrightarrow> res = [op] \<and> w' = w4)
     \<and> (before_merge e c region w = (None, wm) \<and> mergeChecker c = Some mc
        \<and> OperatorCount e (opController c) OpMerge (ext wm)
              < GetMergeScheduleLimit e (opts c) (ext wm)
        \<and> MergeChecker_Check e mc region (ext wm) = (Some ops, x')
        \<longrightarrow> res = ops)
     \<and> (before_merge e c region w = (None, wm)
        \<and> (mergeChecker c = None
            \<or> (\<exists>mc. mergeChecker c = Some mc
                  \<and> (\<not> OperatorCount e (opController c) OpMerge (ext wm)
                          < GetMergeScheduleLimit e (opts c) (ext wm)
                      \<or> fst (MergeChecker_Check e mc region (ext wm)) = None)))
        \<longrightarrow> res = [])
     \<and> ((\<exists>op1 k tr. before_merge e c region w = (Some [op1], w') \<and> res = [op1]
                \<and> events w' = events w @ tr @ [Consulted k]
                \<and> (k = JointState \<or> k = Split \<or> k = Rule \<or> k = Learner \<or> k = Replica))
         \<or> (\<exists>v1. before_merge e c region w = (None, v1)))
     \<and> (length res \<le> 1
         \<or> (\<exists>mc x x'. mergeChecker c = Some mc
                \<and> MergeChecker_Check e mc region x = (Some res, x')))
     \<and> ((\<forall>mc x ops x'. MergeChecker_Check e mc region x = (Some ops, x')
             \<longrightarrow> length ops \<le> 2)
         \<longrightarrow> length res \<le> 2)"
proof -
  have p1: "res = [op] \<and> w' = w1"
    if "consult JointState (JointStateChecker_Check e (jointStateChecker c) region) w
          = (Some op, w1)"
    using run that by (simp add: CheckRegion_def before_merge_def)
  have p2: "res = [op] \<and> w' = w2"
    if "consult JointState (JointStateChecker_Check e (jointStateChecker c) region) w
          = (None, w1)"
      "consult Split (SplitChecker_Check e (splitChecker c) region) w1 = (Some op, w2)"
    using run that by (simp add: CheckRegion_def before_merge_def)
  have p3: "res = [op] \<and> w' = w4"
    if "consult JointState (JointStateChecker_Check e (jointStateChecker c) region) w
          = (None, w1)"
      "consult Split (SplitChecker_Check e (splitChecker c) region) w1 = (None, w2)"
      "IsPlacementRulesEnabled e (opts c) (ext w2)"
      "consult Priority (PriorityChecker_Check e (priorityChecker c) region) w2
            = (Some fit, w3)"
      "consult_listed Rule (rule_waiting (ruleChecker c))
              (RuleChecker_CheckWithFit e (ruleChecker c) region fit) w3 = (Some op, w4)"
      "OperatorCount e (opController c) OpReplica (ext w4)
              < GetReplicaScheduleLimit e (opts c) (ext w4)"
    using run that by (simp add: CheckRegion_def before_merge_def rules_branch_def)
  have p4: "res = [op] \<and> w' = w3"
    if "consult JointState (JointStateChecker_Check e (jointStateChecker c) region) w
          = (None, w1)"
      "consult Split (SplitChecker_Check e (splitChecker c) region) w1 = (None, w2)"
      "\<not> IsPlacementRulesEnabled e (opts c) (ext w2)"
      "consult Learner (LearnerChecker_Check e (learnerChecker c) region) w2
            = (Some op, w3)"
    using run that by (simp add: CheckRegion_def before_merge_def non_rules_branch_def)
  have p5: "res = [op] \<and> w' = w4"
    if "consult JointState (JointStateChecker_Check e (jointStateChecker c) region) w
          = (None, w1)"
      "consult Split (SplitChecker_Check e (splitChecker c) region) w1 = (None, w2)"
      "\<not> IsPlacementRulesEnabled e (opts c) (ext w2)"
      "consult Learner (LearnerChecker_Check e (learnerChecker c) region) w2
            = (None, w3)"
      "consult_listed Replica (replica_waiting (replicaChecker c))
              (ReplicaChecker_Check e (replicaChecker c) region) w3 = (Some op, w4)"
      "OperatorCount e (opController c) OpReplica (ext w4)
              < GetReplicaScheduleLimit e (opts c) (ext w4)"
    using run that by (simp add: CheckRegion_def before_merge_def non_rules_branch_def)
  have p6: "res = ops"
    if "before_merge e c region w = (None, wm)" "mergeChecker c = Some mc"
      "OperatorCount e (opController c) OpMerge (ext wm)
              < GetMergeScheduleLimit e (opts c) (ext wm)"
      "MergeChecker_Check e mc region (ext wm) = (Some ops, x')"
    using run that by (simp add: CheckRegion_def merge_step_def consult_def)
  have p7: "res = []"
    if "before_merge e c region w = (None, wm)"
      "mergeChecker c = None
            \<or> (\<exists>mc. mergeChecker c = Some mc
                  \<and> (\<not> OperatorCount e (opController c) OpMerge (ext wm)
                          < GetMergeScheduleLimit e (opts c) (ext wm)
                      \<or> fst (MergeChecker_Check e mc region (ext wm)) = None))"
    using run that
    by (auto simp add: CheckRegion_def merge_step_def consult_def
        split: prod.splits if_splits)
  have p8: "(\<exists>op1 k tr. before_merge e c region w = (Some [op1], w') \<and> res = [op1]
                \<and> events w' = events w @ tr @ [Consulted k]
                \<and> (k = JointState \<or> k = Split \<or> k = Rule \<or> k = Learner \<or> k = Replica))
         \<or> (\<exists>v1. before_merge e c region w = (None, v1))"
    using run
  proof (cases rule: CheckRegion_cases)
    case returned
    have "\<exists>op1 k tr. res = [op1] \<and> events w' = events w @ tr @ [Consulted k]
            \<and> (k = JointState \<or> k = Split \<or> k = Rule \<or> k = Learner \<or> k = Replica)"
      using returned
      apply (elim before_merge_cases rules_branch_cases non_rules_branch_cases)
               apply (auto dest!: consult_D consult_listed_D)
      done
    with returned show ?thesis by blast
  next
    case (merge v1)
    then show ?thesis by blast
  qed
  have p9: "length res \<le> 1
         \<or> (\<exists>mc x x'. mergeChecker c = Some mc
                \<and> MergeChecker_Check e mc region x = (Some res, x'))"
    using run
    apply (elim CheckRegion_cases before_merge_cases rules_branch_cases
      non_rules_branch_cases merge_step_cases)
                      apply (auto dest!: consult_D consult_listed_D)
    done
  have p10: "length res \<le> 2"
    if "\<forall>mc x ops x'. MergeChecker_Check e mc region x = (Some ops, x')
             \<longrightarrow> length ops \<le> 2"
    using p9 that by auto
  show ?thesis
    apply (intro conjI)
    subgoal using p1 by blast
    subgoal using p2 by blast
    subgoal using p3 by blast
    subgoal using p4 by blast
    subgoal using p5 by blast
    subgoal using p6 by blast
    subgoal using p7 by blast
    subgoal using p8 by blast
    subgoal using p9 by blast
    subgoal using p10 by blast
    done
qed


theorem CheckRegion_result_paths_witness:
  "CheckRegion merge_pair_collaborators example_controller \<lparr>region_id = 42\<rparr> example_world
     = ([10, 11], example_world\<lparr>events := events example_world @
          [Consulted JointState, Consulted Split, Consulted Priority, Consulted Rule,
           Consulted Merge]\<rparr>)
   \<and> length (fst (CheckRegion merge_pair_collaborators example_controller
                     \<lparr>region_id = 42\<rparr> example_world)) \<le> 2
   \<and> fst (CheckRegion
             (merge_pair_collaborators
                \<lparr>SplitChecker_Check := (\<lambda>_ _ x. (Some 8, x))\<rparr>)
             example_controller \<lparr>region_id = 42\<rparr> example_world) = [8]"
proof -
  let ?e = "merge_pair_collaborators"
  let ?f = "merge_pair_collaborators\<lparr>SplitChecker_Check := (\<lambda>_ _ x. (Some 8, x))\<rparr>"
  let ?c = "example_controller"
  let ?r = "\<lparr>region_id = 42\<rparr> :: RegionInfo"
  let ?w1 = "example_world\<lparr>events := events example_world @ [Consulted JointState]\<rparr>"
  let ?w2 = "example_world\<lparr>events := events example_world @
               [Consulted JointState, Consulted Split]\<rparr>"
  let ?wm = "example_world\<lparr>events := events example_world @
          [Consulted JointState, Consulted Split, Consulted Priority, Consulted Rule]\<rparr>"
  note defs = merge_pair_collaborators_def quiet_collaborators_def example_controller_eq
    example_world_eq consult_def consult_listed_def
  have run: "CheckRegion e ?c ?r example_world
               = (fst (CheckRegion e ?c ?r example_world),
                  snd (CheckRegion e ?c ?r example_world))"
    for e :: "(unit, nat, nat, 64 word list) collaborators"
    by simp
  have b: "before_merge ?e ?c ?r example_world = (None, ?wm)"
    by (simp add: defs before_merge_def rules_branch_def)
  have m: "mergeChecker ?c = Some (NewMergeChecker 0 1)"
    by (simp add: example_controller_eq)
  have allowed: "OperatorCount ?e (opController ?c) OpMerge (ext ?wm)
                   < GetMergeScheduleLimit ?e (opts ?c) (ext ?wm)"
    by (simp add: defs)
  have proposes: "MergeChecker_Check ?e (NewMergeChecker 0 1) ?r (ext ?wm)
                    = (Some [10, 11], [])"
    by (simp add: defs)
  have pair: "\<forall>mc x ops x'. MergeChecker_Check ?e mc ?r x = (Some ops, x')
                \<longrightarrow> length ops \<le> 2"
    by (auto simp add: merge_pair_collaborators_def)
  note t = CheckRegion_result_paths [OF run [of ?e], where wm = ?wm
      and mc = "NewMergeChecker 0 1" and ops = "[10, 11]" and x' = "[]"]
  note merge_path = t [THEN conjunct2, THEN conjunct2, THEN conjunct2, THEN conjunct2,
      THEN conjunct2, THEN conjunct1]
  from merge_path b m allowed proposes
  have r1: "fst (CheckRegion ?e ?c ?r example_world) = [10, 11]"
    by blast
  note bound = t [THEN conjunct2, THEN conjunct2, THEN conjunct2, THEN conjunct2,
      THEN conjunct2, THEN conjunct2, THEN conjunct2, THEN conjunct2, THEN conjunct2]
  from bound pair have r2: "length (fst (CheckRegion ?e ?c ?r example_world)) \<le> 2"
    by (rule mp)
  have j: "consult JointState (JointStateChecker_Check ?f (jointStateChecker ?c) ?r)
             example_world = (None, ?w1)"
    by (simp add: defs)
  have s: "consult Split (SplitChecker_Check ?f (splitChecker ?c) ?r) ?w1 = (Some 8, ?w2)"
    by (simp add: defs)
  note t' = CheckRegion_result_paths [OF run [of ?f], where ?w1.0 = ?w1 and ?w2.0 = ?w2
      and op = 8]
  note split_path = t' [THEN conjunct2, THEN conjunct1]
  from split_path j s have r3: "fst (CheckRegion ?f ?c ?r example_world) = [8]"
    by blast
  have v: "snd (CheckRegion ?e ?c ?r example_world)
             = example_world\<lparr>events := events example_world @
          [Consulted JointState, Consulted Split, Consulted Priority, Consulted Rule,
           Consulted Merge]\<rparr>"
    by (simp add: defs CheckRegion_def before_merge_def rules_branch_def merge_step_def)
  have full: "CheckRegion ?e ?c ?r example_world
     = ([10, 11], example_world\<lparr>events := events example_world @
          [Consulted JointState, Consulted Split, Consulted Priority, Consulted Rule,
           Consulted Merge]\<rparr>)"
    using r1 v by (simp add: prod_eq_iff)
  from full r2 r3 show ?thesis by blast
qed

text \<open>
  The bound of two actions is the merge checker's and not \<^verbatim>\<open>CheckRegion\<close>'s: a proposal
  of three actions is returned whole.
\<close>

theorem CheckRegion_three_actions_counterexample:
  "fst (CheckRegion merge_triple_collaborators example_controller \<lparr>region_id = 42\<rparr>
          example_world) = [10, 11, 12]
   \<and> length (fst (CheckRegion merge_triple_collaborators example_controller
                     \<lparr>region_id = 42\<rparr> example_world)) = 3"
  by (simp add: merge_triple_collaborators_def quiet_collaborators_def example_controller_eq
      example_world_eq consult_def consult_listed_def CheckRegion_def before_merge_def
      rules_branch_def merge_step_def)

section \<open>Properties of construction and of the pause lookup\<close>

text \<open>
  C9. \<^verbatim>\<open>NewCheckerController\<close> is a total function with no error result. The controller
  it returns holds the seven checkers, each built once from the given dependencies (the
  log gains one entry per kind); the replica checker, the rule checker and the
  controller hold the same cache address, the one cache the call created, which has
  capacity 1000 and no entry; no other cache changes. A Put through the controller's
  reference is therefore seen through the two checkers' references.
\<close>

theorem NewCheckerController_wiring:
  "(case NewCheckerController e ctx cl ruleManager labeler opc w of
      (c, w') \<Rightarrow>
        cluster c = cl \<and> opts c = Cluster_GetOpts e cl \<and> opController c = opc
        \<and> learnerChecker c = NewLearnerChecker cl
        \<and> replicaChecker c = NewReplicaChecker cl (regionWaitingList c)
        \<and> ruleChecker c = NewRuleChecker cl ruleManager (regionWaitingList c)
        \<and> splitChecker c = NewSplitChecker cl ruleManager labeler
        \<and> mergeChecker c = Some (NewMergeChecker ctx cl)
        \<and> jointStateChecker c = NewJointStateChecker cl
        \<and> priorityChecker c = NewPriorityChecker cl
        \<and> regionWaitingList c = next_cache w
        \<and> replica_waiting (replicaChecker c) = regionWaitingList c
        \<and> rule_waiting (ruleChecker c) = regionWaitingList c
        \<and> caches w' (regionWaitingList c) = NewDefaultCache 1000
        \<and> capacity (caches w' (regionWaitingList c)) = 1000
        \<and> Elems (caches w' (regionWaitingList c)) = []
        \<and> next_cache w' = Suc (next_cache w)
        \<and> (\<forall>b. b = regionWaitingList c \<or> caches w' b = caches w b)
        \<and> events w'
            = events w @ [Built Learner, Built Replica, Built Rule, Built Split, Built Merge,
                          Built JointState, Built Priority]
        \<and> (\<forall>k. count_list (drop (length (events w)) (events w')) (Built k) = 1)
        \<and> (\<forall>k. caches (regionWaitingList_Put (regionWaitingList c) k w')
                   (replica_waiting (replicaChecker c)) = Put (NewDefaultCache 1000) k
               \<and> caches (regionWaitingList_Put (regionWaitingList c) k w')
                   (rule_waiting (ruleChecker c)) = Put (NewDefaultCache 1000) k)
        \<and> OperatorLimitCounter w' = OperatorLimitCounter w \<and> ext w' = ext w)"
proof -
  have all_kinds: "Priority \<noteq> k \<longrightarrow> JointState \<noteq> k \<longrightarrow> Merge \<noteq> k \<longrightarrow> Split \<noteq> k
                    \<longrightarrow> Rule \<noteq> k \<longrightarrow> Replica \<noteq> k \<longrightarrow> Learner = k" for k
    by (cases k) simp_all
  show ?thesis
    by (simp add: NewCheckerController_def Let_def DefaultCacheSize_def NewDefaultCache_def
        Elems_def regionWaitingList_Put_def all_kinds)
qed

theorem NewCheckerController_wiring_witness:
  "replica_waiting (replicaChecker example_controller) = regionWaitingList example_controller
   \<and> rule_waiting (ruleChecker example_controller) = regionWaitingList example_controller
   \<and> capacity (caches example_world (regionWaitingList example_controller)) = 1000
   \<and> Elems (caches example_world (regionWaitingList example_controller)) = []
   \<and> mergeChecker example_controller = Some (NewMergeChecker 0 1)"
proof -
  note t = NewCheckerController_wiring [where e = quiet_collaborators and ctx = 0 and cl = 1
      and ruleManager = 2 and labeler = 3 and opc = 4 and w = empty_world,
      unfolded case_prod_unfold, folded example_controller_def example_world_def]
  from t show ?thesis by blast
qed

text \<open>
  C6. \<^verbatim>\<open>GetPauseController\<close> returns the pause controller of the named checker for
  each of the seven names "learner", "replica", "rule", "split", "merge", "joint-state"
  and "priority" (for "merge", on a controller that has a merge checker, as every
  controller built by \<^verbatim>\<open>NewCheckerController\<close> has), and \<^verbatim>\<open>ErrCheckerNotFound\<close> with no
  controller for every other string: a name matches only as a whole. The other
  operations modelled here have result types with no error component.
\<close>

theorem GetPauseController_seven_names:
  "GetPauseController c ''learner'' = Inr (PauseControllerOf Learner)
   \<and> GetPauseController c ''replica'' = Inr (PauseControllerOf Replica)
   \<and> GetPauseController c ''rule'' = Inr (PauseControllerOf Rule)
   \<and> GetPauseController c ''split'' = Inr (PauseControllerOf Split)
   \<and> (mergeChecker c \<noteq> None \<longrightarrow>
        GetPauseController c ''merge'' = Inr (PauseControllerOf Merge))
   \<and> GetPauseController c ''joint-state'' = Inr (PauseControllerOf JointState)
   \<and> GetPauseController c ''priority'' = Inr (PauseControllerOf Priority)
   \<and> (name \<notin> {''learner'', ''replica'', ''rule'', ''split'', ''merge'', ''joint-state'',
                ''priority''} \<longrightarrow>
        GetPauseController c name = Inl ErrCheckerNotFound)
   \<and> (mergeChecker c \<noteq> None \<longrightarrow>
        ((\<exists>p. GetPauseController c name = Inr p) \<longleftrightarrow>
           name \<in> {''learner'', ''replica'', ''rule'', ''split'', ''merge'', ''joint-state'',
                    ''priority''}))"
  by (auto simp add: GetPauseController_def split: option.splits)

theorem GetPauseController_seven_names_witness:
  "mergeChecker example_controller \<noteq> None
   \<and> GetPauseController example_controller ''merge'' = Inr (PauseControllerOf Merge)
   \<and> ''learn'' \<notin> {''learner'', ''replica'', ''rule'', ''split'', ''merge'', ''joint-state'',
                ''priority''}
   \<and> GetPauseController example_controller ''learn'' = Inl ErrCheckerNotFound
   \<and> GetPauseController example_controller ''Merge'' = Inl ErrCheckerNotFound
   \<and> GetPauseController example_controller [] = Inl ErrCheckerNotFound"
proof -
  have m: "mergeChecker example_controller \<noteq> None"
    by (simp add: example_controller_def NewCheckerController_def Let_def)
  have n1: "''learn'' \<notin> {''learner'', ''replica'', ''rule'', ''split'', ''merge'',
                ''joint-state'', ''priority''}"
    by simp
  have n2: "''Merge'' \<notin> {''learner'', ''replica'', ''rule'', ''split'', ''merge'',
                ''joint-state'', ''priority''}"
    by simp
  have n3: "[] \<notin> {''learner'', ''replica'', ''rule'', ''split'', ''merge'',
                ''joint-state'', ''priority''}"
    by simp
  note t = GetPauseController_seven_names [of example_controller]
  from t [of "[]"] m have a: "GetPauseController example_controller ''merge''
        = Inr (PauseControllerOf Merge)" by blast
  from t [of "''learn''"] n1 have b: "GetPauseController example_controller ''learn''
        = Inl ErrCheckerNotFound" by blast
  from t [of "''Merge''"] n2 have c: "GetPauseController example_controller ''Merge''
        = Inl ErrCheckerNotFound" by blast
  from t [of "[]"] n3 have d: "GetPauseController example_controller []
        = Inl ErrCheckerNotFound" by blast
  from m a n1 b c d show ?thesis by blast
qed


end
